theory Spec2Isabelle
  imports Main
begin

section \<open>Data model of \<open>bot.py\<close>\<close>

text \<open>
  The content collector keeps three kinds of state: the relational store (the tables
  created by \<open>_init_database\<close>), the local download directory (the byte sink), and the
  in-memory dictionaries of \<open>ContentCollectorBot\<close>. Everything outside the program that
  a call depends on (the clock, whether a file write succeeds, what a download returns)
  is an explicit argument. The two library functions \<open>hashlib.md5(..).hexdigest()\<close> and
  \<open>urllib.parse.urlparse(..).netloc\<close> are parameters as well, so every theorem holds
  for any digest and any URL parser.
\<close>

record lib =
  md5_hexdigest :: "string \<Rightarrow> string"
  urlparse_netloc :: "string \<Rightarrow> string option"  \<comment> \<open>\<open>None\<close>: \<open>urlparse\<close> raised\<close>

text \<open>The content types, written \<open>'text'\<close>, \<open>'image'\<close>, ... in the source.\<close>

datatype content_type = Text | Image | Video | Audio | Document | Sticker | Animation

fun type_name :: "content_type \<Rightarrow> string" where
  "type_name Text = ''text''"
| "type_name Image = ''image''"
| "type_name Video = ''video''"
| "type_name Audio = ''audio''"
| "type_name Document = ''document''"
| "type_name Sticker = ''sticker''"
| "type_name Animation = ''animation''"

record datetime =
  instant :: int
  tzinfo :: "string option"

subsection \<open>The relational store\<close>

text \<open>
  One table per content kind: \<open>"text"(text_id, message_text)\<close>,
  \<open>photo(photo_id, photo_link)\<close> (for \<open>'image'\<close>), \<open>video\<close>, \<open>audio\<close>, \<open>sticker\<close>,
  \<open>animation\<close>, and \<open>document(document_id, document_link, original_name)\<close>. They are
  indexed here by the content type. Every id column is
  \<open>BIGINT GENERATED ALWAYS AS IDENTITY\<close>: a sequence that starts at 1 and is advanced by
  every \<open>INSERT\<close> attempt. The columns \<open>added_at\<close> and \<open>last_check_at\<close> of \<open>channel\<close> and
  \<open>title\<close>, \<open>description\<close> of \<open>links\<close> (always \<open>NULL\<close>) are written and never read by the
  code modelled here; they are left out.
\<close>

record content_row =
  row_id :: nat
  row_link :: string
  row_original_name :: "string option"

record link_row =
  lk_link_id :: nat
  lk_url :: string
  lk_domain :: string

record channel_row =
  ch_channel_id :: nat
  ch_tag_channel :: string
  ch_name_channel :: string
  ch_is_active :: bool
  ch_added_by :: int
  ch_last_message_id :: int

record message_channel_row =
  mc_message_id :: nat
  mc_channel_id :: nat
  mc_creation_time :: datetime
  mc_text_id :: "nat option"
  mc_photo_id :: "nat option"
  mc_video_id :: "nat option"
  mc_audio_id :: "nat option"
  mc_document_id :: "nat option"
  mc_sticker_id :: "nat option"
  mc_animation_id :: "nat option"
  mc_link_id :: "nat option"
  mc_telegram_message_id :: int
  mc_file_hash :: "string option"

record database =
  content_tables :: "content_type \<Rightarrow> content_row list"
  content_seq :: "content_type \<Rightarrow> nat"
  links :: "link_row list"
  links_seq :: nat
  channels :: "channel_row list"       \<comment> \<open>the table \<open>channel\<close>\<close>
  channel_seq :: nat
  message_channel :: "message_channel_row list"
  message_channel_seq :: nat

text \<open>
  \<open>INSERT INTO <kind table> ... RETURNING <id>\<close>. The link columns are
  \<open>VARCHAR(250) NOT NULL CHECK(LENGTH(..) > 3)\<close>, \<open>original_name\<close> is \<open>VARCHAR(250)\<close>,
  \<open>message_text\<close> is unbounded \<open>TEXT\<close>. \<open>None\<close> is a constraint violation, which asyncpg
  raises as an exception.
\<close>

definition insert_content ::
  "content_type \<Rightarrow> string \<Rightarrow> string option \<Rightarrow> database \<Rightarrow> database \<times> nat option" where
  "insert_content ct link original_name d =
     (let new_id = Suc (content_seq d ct);
          d1 = d\<lparr>content_seq := (content_seq d)(ct := new_id)\<rparr>;
          name_ok = (case original_name of None \<Rightarrow> True | Some n \<Rightarrow> length n \<le> 250)
      in if ct \<noteq> Text \<and> \<not> (3 < length link \<and> length link \<le> 250 \<and> name_ok)
         then (d1, None)
         else (d1\<lparr>content_tables := (content_tables d1)(ct := content_tables d1 ct @
                 [\<lparr>row_id = new_id, row_link = link, row_original_name = original_name\<rparr>])\<rparr>,
               Some new_id))"

text \<open>
  \<open>INSERT INTO links .. ON CONFLICT (url) DO UPDATE SET url = EXCLUDED.url RETURNING link_id\<close>
  with \<open>url VARCHAR(500) CHECK(LENGTH(url) > 3)\<close>, \<open>domain VARCHAR(100)\<close> and the unique
  index \<open>idx_links_url\<close>: an existing row with the URL is returned as it is.
\<close>

definition upsert_link :: "string \<Rightarrow> string \<Rightarrow> database \<Rightarrow> database \<times> nat option" where
  "upsert_link u dmn d =
     (let new_id = Suc (links_seq d);
          d1 = d\<lparr>links_seq := new_id\<rparr>
      in if 500 < length u \<or> 100 < length dmn then (d1, None)
         else (case find (\<lambda>r. lk_url r = u) (links d1) of
                 Some r \<Rightarrow> (d1, Some (lk_link_id r))
               | None \<Rightarrow>
                   if \<not> 3 < length u then (d1, None)
                   else (d1\<lparr>links := links d1 @
                            [\<lparr>lk_link_id = new_id, lk_url = u, lk_domain = dmn\<rparr>]\<rparr>,
                         Some new_id)))"

text \<open>\<open>SELECT channel_id FROM channel WHERE tag_channel = $1\<close> through \<open>fetchrow\<close>.\<close>

definition select_channel_id :: "string \<Rightarrow> database \<Rightarrow> nat option" where
  "select_channel_id tag d =
     map_option ch_channel_id (find (\<lambda>r. ch_tag_channel r = tag) (channels d))"

text \<open>
  \<open>SELECT message_id FROM message_channel WHERE telegram_message_id = $1 AND channel_id = $2\<close>
  through \<open>fetchval\<close>.
\<close>

definition select_existing :: "int \<Rightarrow> nat \<Rightarrow> database \<Rightarrow> nat option" where
  "select_existing message_id channel_id d =
     map_option mc_message_id
       (find (\<lambda>r. mc_telegram_message_id r = message_id \<and> mc_channel_id r = channel_id)
          (message_channel d))"

text \<open>
  \<open>INSERT INTO message_channel\<close>. The table has
  \<open>channel_id BIGINT NOT NULL REFERENCES channel(channel_id)\<close> and
  \<open>file_hash VARCHAR(64) UNIQUE\<close>; a \<open>UNIQUE\<close> column admits any number of \<open>NULL\<close>s. The
  references to the content tables hold by construction (the ids were returned by the
  inserts of the same call). \<open>False\<close> is a constraint violation (an exception).
\<close>

definition hash_taken :: "string \<Rightarrow> database \<Rightarrow> bool" where
  "hash_taken h d = (\<exists>r \<in> set (message_channel d). mc_file_hash r = Some h)"

definition insert_message_channel :: "message_channel_row \<Rightarrow> database \<Rightarrow> database \<times> bool" where
  "insert_message_channel r d =
     (let new_id = Suc (message_channel_seq d);
          d1 = d\<lparr>message_channel_seq := new_id\<rparr>;
          fk_ok = (\<exists>c \<in> set (channels d). ch_channel_id c = mc_channel_id r);
          hash_ok = (case mc_file_hash r of None \<Rightarrow> True
                     | Some h \<Rightarrow> length h \<le> 64 \<and> \<not> hash_taken h d)
      in if fk_ok \<and> hash_ok
         then (d1\<lparr>message_channel := message_channel d1 @ [r\<lparr>mc_message_id := new_id\<rparr>]\<rparr>, True)
         else (d1, False))"

subsection \<open>Messages and the in-memory state\<close>

text \<open>
  A Telethon message as \<open>_save_telethon_message\<close> reads it: \<open>msg.id\<close>, \<open>msg.date\<close>,
  \<open>msg.message\<close> (already as UTF-8 bytes), whether \<open>msg.media\<close> is set, and the
  truth values of \<open>msg.photo\<close>, \<open>msg.video\<close>, \<open>msg.audio\<close>, \<open>msg.sticker\<close>, \<open>msg.gif\<close>
  and \<open>getattr(msg, 'animation', None)\<close>.
\<close>

record tg_message =
  tg_id :: int
  tg_date :: "datetime option"
  tg_text :: "string option"
  tg_media :: bool
  tg_photo :: bool
  tg_video :: bool
  tg_audio :: bool
  tg_sticker :: bool
  tg_gif :: bool
  tg_animation :: bool

text \<open>What the outside world answers during one call of \<open>_save_telethon_message\<close>.\<close>

record world =
  w_now :: datetime                \<comment> \<open>\<open>datetime.now()\<close>\<close>
  w_stamp_text :: string           \<comment> \<open>\<open>strftime\<close> stamp of the text file name\<close>
  w_stamp_media :: string          \<comment> \<open>\<open>strftime\<close> stamp of the media file name\<close>
  w_write_text :: bool             \<comment> \<open>does writing the text file succeed\<close>
  w_write_media :: bool            \<comment> \<open>does writing the media file succeed\<close>
  w_download :: "string option"    \<comment> \<open>\<open>download_media\<close>: \<open>None\<close> when it raises\<close>

record processed_content_entry =
  pc_file_hash :: string
  pc_file_path :: string
  pc_db_id :: int

record channel_meta =
  is_active :: bool
  last_id :: int
  meta_channel_id :: "nat option"

text \<open>
  An aiogram message as the bot handlers read it: \<open>content_type\<close> together with the
  attribute that belongs to it, and \<open>media_group_id\<close>.
\<close>

record file_ref =
  file_id :: string
  file_name :: "string option"
  file_size :: "nat option"

datatype payload =
    TEXT "string option"
  | PHOTO "file_ref list"
  | DOCUMENT file_ref
  | VIDEO file_ref
  | AUDIO file_ref
  | STICKER file_ref
  | ANIMATION file_ref
  | OTHER

record aio_message =
  aio_message_id :: int
  aio_payload :: payload
  media_group_id :: "string option"

text \<open>
  The fields of \<open>ContentCollectorBot\<close> that the modelled methods use. \<open>tg_client\<close> and
  \<open>db_pool\<close> say whether the attribute is set; \<open>db\<close> is the content of the store behind
  the pool and \<open>files\<close> the files written below \<open>download_path\<close>, in the order of the
  writes. \<open>ProcessedContent.timestamp\<close> is never read and left out. The values of
  \<open>media_groups\<close> are list objects that the handlers and the pending tasks share; the
  dictionary holds their addresses and the lists themselves are kept with the tasks
  (record \<open>runtime\<close> below).
\<close>

record bot =
  download_path :: string
  tg_client :: bool
  db_pool :: bool
  db :: database
  files :: "(string \<times> string) list"
  processed_content :: "string \<rightharpoonup> processed_content_entry"
  media_groups :: "string \<rightharpoonup> nat"
  monitored_channels :: "string \<rightharpoonup> channel_meta"

section \<open>Helpers of the collector\<close>

text \<open>Python truthiness of an optional id, of an optional string and of a list.\<close>

definition truthy_id :: "nat option \<Rightarrow> bool" where
  "truthy_id x = (case x of None \<Rightarrow> False | Some n \<Rightarrow> n \<noteq> 0)"

definition truthy_str :: "string option \<Rightarrow> bool" where
  "truthy_str x = (case x of None \<Rightarrow> False | Some t \<Rightarrow> t \<noteq> [])"

text \<open>\<open>_is_duplicate\<close>: \<open>file_hash in self.processed_content\<close>.\<close>

definition is_duplicate :: "string \<Rightarrow> bot \<Rightarrow> bool" where
  "is_duplicate file_hash s = (processed_content s file_hash \<noteq> None)"

text \<open>The assignment \<open>self.processed_content[file_hash] = ProcessedContent(..)\<close>.\<close>

definition record_processed :: "string \<Rightarrow> string \<Rightarrow> bot \<Rightarrow> bot" where
  "record_processed file_hash file_path s =
     s\<lparr>processed_content := (processed_content s)(file_hash \<mapsto>
         \<lparr>pc_file_hash = file_hash, pc_file_path = file_path, pc_db_id = - 1\<rparr>)\<rparr>"

text \<open>
  \<open>_generate_filename\<close>: the extension is what follows the last dot of the original
  name, \<open>'bin'\<close> when it has no dot.
\<close>

fun after_last_dot :: "string \<Rightarrow> string \<Rightarrow> string" where
  "after_last_dot acc [] = acc"
| "after_last_dot acc (c # cs) =
     (if c = CHR ''.'' then after_last_dot [] cs else after_last_dot (acc @ [c]) cs)"

definition generate_filename :: "string option \<Rightarrow> content_type \<Rightarrow> string \<Rightarrow> string" where
  "generate_filename original_name ct timestamp =
     (if truthy_str original_name
      then (let n = the original_name;
                extension = (if CHR ''.'' \<in> set n then after_last_dot [] n else ''bin'')
            in type_name ct @ ''_'' @ timestamp @ ''.'' @ extension)
      else type_name ct @ ''_'' @ timestamp)"

text \<open>\<open>os.path.join\<close> of two components on POSIX.\<close>

definition path_join :: "string \<Rightarrow> string \<Rightarrow> string" where
  "path_join a b =
     (if (case b of [] \<Rightarrow> False | c # _ \<Rightarrow> c = CHR ''/'') then b
      else if a = [] \<or> last a = CHR ''/'' then a @ b
      else a @ ''/'' @ b)"

text \<open>
  \<open>_save_file_locally\<close>: writes the bytes and returns the path, or returns \<open>None\<close> when
  opening or writing raises (the first argument says which).
\<close>

definition save_file_locally ::
  "bool \<Rightarrow> string \<Rightarrow> string \<Rightarrow> content_type \<Rightarrow> bot \<Rightarrow> bot \<times> string option" where
  "save_file_locally write_ok file_data filename ct s =
     (let file_dir = path_join (download_path s) (type_name ct);
          file_path = path_join file_dir filename
      in if write_ok then (s\<lparr>files := files s @ [(file_path, file_data)]\<rparr>, Some file_path)
         else (s, None))"

text \<open>\<open>_normalize_datetime\<close>.\<close>

definition normalize_datetime :: "datetime option \<Rightarrow> datetime \<Rightarrow> datetime" where
  "normalize_datetime dt now =
     (case dt of None \<Rightarrow> now
      | Some t \<Rightarrow> if tzinfo t \<noteq> None then t\<lparr>tzinfo := None\<rparr> else t)"

subsection \<open>\<open>_extract_links\<close>\<close>

text \<open>
  The pattern is
  \<^verbatim>\<open>http[s]?://(?:[a-zA-Z]|[0-9]|[$-_@.&+]|[!*\\(\\),]|(?:%[0-9a-fA-F][0-9a-fA-F]))+\<close>.
  Its first four alternatives are character classes; \<open>[$-_@.&+]\<close> contains the range
  from \<open>$\<close> (36) to \<open>_\<close> (95). The last alternative (a percent escape) only matches text
  that the earlier ones match character by character, so a match is \<open>http://\<close> or
  \<open>https://\<close> followed by the longest non-empty run of class characters.
\<close>

definition url_char :: "char \<Rightarrow> bool" where
  "url_char c =
     (let n = (of_char c :: nat)
      in (65 \<le> n \<and> n \<le> 90) \<or> (97 \<le> n \<and> n \<le> 122)
       \<or> (48 \<le> n \<and> n \<le> 57)
       \<or> (36 \<le> n \<and> n \<le> 95) \<or> c \<in> set ''@.&+''
       \<or> c \<in> set [CHR ''!'', CHR ''*'', CHR 0x5C, CHR ''('', CHR '')'', CHR '',''])"

fun strip_prefix :: "string \<Rightarrow> string \<Rightarrow> string option" where
  "strip_prefix [] s = Some s"
| "strip_prefix (p # ps) [] = None"
| "strip_prefix (p # ps) (c # cs) = (if p = c then strip_prefix ps cs else None)"

definition match_body :: "string \<Rightarrow> string \<Rightarrow> string option" where
  "match_body scheme rest =
     (let run = takeWhile url_char rest in if run = [] then None else Some (scheme @ run))"

text \<open>A match of the pattern that starts at the first character.\<close>

definition match_at :: "string \<Rightarrow> string option" where
  "match_at s =
     (case strip_prefix ''https://'' s of
        Some rest \<Rightarrow> match_body ''https://'' rest
      | None \<Rightarrow>
          (case strip_prefix ''http://'' s of
             Some rest \<Rightarrow> match_body ''http://'' rest
           | None \<Rightarrow> None))"

text \<open>
  \<open>re.findall\<close>: the matches from left to right, without overlap. The first argument
  counts the characters still covered by the previous match.
\<close>

fun findall_from :: "nat \<Rightarrow> string \<Rightarrow> string list" where
  "findall_from k [] = []"
| "findall_from (Suc k) (c # cs) = findall_from k cs"
| "findall_from 0 (c # cs) =
     (case match_at (c # cs) of
        Some u \<Rightarrow> u # findall_from (length u - 1) cs
      | None \<Rightarrow> findall_from 0 cs)"

definition extract_links :: "lib \<Rightarrow> string \<Rightarrow> (string \<times> string) list" where
  "extract_links L text =
     (if text = [] then []
      else concat (map (\<lambda>u. case urlparse_netloc L u of
                                 Some d \<Rightarrow> [(u, d)]
                               | None \<Rightarrow> [])
                       (findall_from 0 text)))"

section \<open>\<open>_save_telethon_message\<close>\<close>

text \<open>The local variables of the method that survive from one block to the next.\<close>

record vars =
  message_processed :: bool
  saved_any :: bool
  text_id :: "nat option"
  photo_id :: "nat option"
  video_id :: "nat option"
  audio_id :: "nat option"
  document_id :: "nat option"
  sticker_id :: "nat option"
  animation_id :: "nat option"
  link_id :: "nat option"
  file_hash :: "string option"

definition initial_vars :: vars where
  "initial_vars =
     \<lparr>message_processed = False, saved_any = False, text_id = None, photo_id = None,
      video_id = None, audio_id = None, document_id = None, sticker_id = None,
      animation_id = None, link_id = None, file_hash = None\<rparr>"

text \<open>
  The text block (\<open>if getattr(msg, 'message', None)\<close>). The file is written before the
  fingerprint is looked up. Nothing in this block catches an exception, so a failing
  statement of the store leaves through the handler of the whole method: the second
  component is \<open>None\<close> then, and what was written before stays written.
\<close>

definition save_text ::
  "lib \<Rightarrow> world \<Rightarrow> tg_message \<Rightarrow> nat option \<Rightarrow> bot \<Rightarrow> vars \<Rightarrow> bot \<times> vars option" where
  "save_text L w msg channel_id s v =
     (if \<not> truthy_str (tg_text msg) then (s, Some v)
      else
        let t = the (tg_text msg);
            v1 = v\<lparr>message_processed := True\<rparr>;
            filename = generate_filename None Text (w_stamp_text w);
            (s1, file_path) = save_file_locally (w_write_text w) t filename Text s
        in if \<not> truthy_str file_path then (s1, Some v1)
           else
             let h = md5_hexdigest L t;
                 v2 = v1\<lparr>file_hash := Some h\<rparr>
             in if is_duplicate h s1 then (s1, Some v2)
                else if db_pool s1 \<and> truthy_id channel_id
                then
                  (case insert_content Text t None (db s1) of
                     (d1, None) \<Rightarrow> (s1\<lparr>db := d1\<rparr>, None)
                   | (d1, Some tid) \<Rightarrow>
                       (case extract_links L t of
                          [] \<Rightarrow>
                            (record_processed h (the file_path) (s1\<lparr>db := d1\<rparr>),
                             Some (v2\<lparr>text_id := Some tid, saved_any := True\<rparr>))
                        | link_data # _ \<Rightarrow>
                            (case upsert_link (fst link_data) (snd link_data) d1 of
                               (d2, None) \<Rightarrow> (s1\<lparr>db := d2\<rparr>, None)
                             | (d2, Some lid) \<Rightarrow>
                                 (record_processed h (the file_path) (s1\<lparr>db := d2\<rparr>),
                                  Some (v2\<lparr>text_id := Some tid, link_id := Some lid,
                                           saved_any := True\<rparr>)))))
                else (record_processed h (the file_path) s1, Some (v2\<lparr>saved_any := True\<rparr>)))"

text \<open>The chain that infers the content type of a media item.\<close>

definition infer_content_type :: "tg_message \<Rightarrow> content_type" where
  "infer_content_type msg =
     (if tg_photo msg then Image
      else if tg_video msg then Video
      else if tg_audio msg then Audio
      else if tg_sticker msg then Sticker
      else if tg_gif msg \<or> tg_animation msg then Animation
      else Document)"

definition set_media_id :: "content_type \<Rightarrow> nat \<Rightarrow> vars \<Rightarrow> vars" where
  "set_media_id ct media_id v =
     (case ct of
        Image \<Rightarrow> v\<lparr>photo_id := Some media_id\<rparr>
      | Video \<Rightarrow> v\<lparr>video_id := Some media_id\<rparr>
      | Audio \<Rightarrow> v\<lparr>audio_id := Some media_id\<rparr>
      | Document \<Rightarrow> v\<lparr>document_id := Some media_id\<rparr>
      | Sticker \<Rightarrow> v\<lparr>sticker_id := Some media_id\<rparr>
      | Animation \<Rightarrow> v\<lparr>animation_id := Some media_id\<rparr>
      | Text \<Rightarrow> v)"

text \<open>
  The media block (\<open>if getattr(msg, 'media', None)\<close>). From the download on it runs
  inside \<open>try\<close>: an exception of the download or of the store is logged and the method
  goes on with the variables as they are at that point.
\<close>

definition save_media ::
  "lib \<Rightarrow> world \<Rightarrow> tg_message \<Rightarrow> nat option \<Rightarrow> bot \<Rightarrow> vars \<Rightarrow> bot \<times> vars" where
  "save_media L w msg channel_id s v =
     (if \<not> tg_media msg then (s, v)
      else
        let v1 = v\<lparr>message_processed := True\<rparr>
        in if \<not> tg_client s then (s, v1)
           else
             (case w_download w of
                None \<Rightarrow> (s, v1)
              | Some data \<Rightarrow>
                  if data = [] then (s, v1)
                  else
                    let h = md5_hexdigest L data;
                        v2 = v1\<lparr>file_hash := Some h\<rparr>
                    in if is_duplicate h s then (s, v2)
                       else
                         let content_type = infer_content_type msg;
                             filename = generate_filename None content_type (w_stamp_media w);
                             (s1, file_path) =
                               save_file_locally (w_write_media w) data filename content_type s
                         in if \<not> truthy_str file_path then (s1, v2)
                            else if db_pool s1 \<and> truthy_id channel_id
                            then
                              (case insert_content content_type (the file_path)
                                      (if content_type = Document then Some filename else None)
                                      (db s1) of
                                 (d1, None) \<Rightarrow> (s1\<lparr>db := d1\<rparr>, v2)
                               | (d1, Some media_id) \<Rightarrow>
                                   (record_processed h (the file_path) (s1\<lparr>db := d1\<rparr>),
                                    (set_media_id content_type media_id v2)\<lparr>saved_any := True\<rparr>))
                            else (record_processed h (the file_path) s1,
                                  v2\<lparr>saved_any := True\<rparr>)))"

text \<open>
  The block that creates the single \<open>message_channel\<close> record of the message: look the
  key \<open>(telegram_message_id, channel_id)\<close> up, insert when nothing is found. An exception
  of the insert is caught and logged.
\<close>

definition create_message_channel_record ::
  "world \<Rightarrow> tg_message \<Rightarrow> nat option \<Rightarrow> bot \<Rightarrow> vars \<Rightarrow> bot \<times> vars" where
  "create_message_channel_record w msg channel_id s v =
     (if db_pool s \<and> truthy_id channel_id \<and> tg_id msg \<noteq> 0
      then
        let cid = the channel_id;
            existing = select_existing (tg_id msg) cid (db s)
        in if \<not> truthy_id existing
           then
             let creation_time = normalize_datetime (tg_date msg) (w_now w);
                 (d1, inserted) = insert_message_channel
                    \<lparr>mc_message_id = 0, mc_channel_id = cid, mc_creation_time = creation_time,
                     mc_text_id = text_id v, mc_photo_id = photo_id v, mc_video_id = video_id v,
                     mc_audio_id = audio_id v, mc_document_id = document_id v,
                     mc_sticker_id = sticker_id v, mc_animation_id = animation_id v,
                     mc_link_id = link_id v, mc_telegram_message_id = tg_id msg,
                     mc_file_hash = file_hash v\<rparr> (db s)
             in if inserted then (s\<lparr>db := d1\<rparr>, v\<lparr>saved_any := True\<rparr>)
                else (s\<lparr>db := d1\<rparr>, v)
           else (s, v)
      else (s, v))"

text \<open>The list \<open>types_saved\<close>.\<close>

definition types_saved_of :: "vars \<Rightarrow> string list" where
  "types_saved_of v =
     (if truthy_id (text_id v) then [''text''] else []) @
     (if truthy_id (photo_id v) then [''photo''] else []) @
     (if truthy_id (video_id v) then [''video''] else []) @
     (if truthy_id (audio_id v) then [''audio''] else []) @
     (if truthy_id (document_id v) then [''document''] else []) @
     (if truthy_id (sticker_id v) then [''sticker''] else []) @
     (if truthy_id (animation_id v) then [''animation''] else []) @
     (if truthy_id (link_id v) then [''link''] else [])"

text \<open>
  The whole method. It returns the pair \<open>(message_processed or saved_any, types_saved)\<close>,
  and \<open>(False, [])\<close> from its outer exception handler.
\<close>

definition save_telethon_message ::
  "lib \<Rightarrow> world \<Rightarrow> tg_message \<Rightarrow> string option \<Rightarrow> nat option \<Rightarrow> bot
     \<Rightarrow> bot \<times> bool \<times> string list" where
  "save_telethon_message L w msg channel_name channel_id s =
     (let channel_id1 =
            (if channel_id = None \<and> db_pool s \<and> truthy_str channel_name
             then select_channel_id (the channel_name) (db s)
             else channel_id)
      in case save_text L w msg channel_id1 s initial_vars of
           (s1, None) \<Rightarrow> (s1, False, [])
         | (s1, Some v1) \<Rightarrow>
             let (s2, v2) = save_media L w msg channel_id1 s1 v1;
                 v3 = (if \<not> message_processed v2 \<and> tg_id msg \<noteq> 0
                       then v2\<lparr>message_processed := True\<rparr> else v2);
                 (s3, v4) = create_message_channel_record w msg channel_id1 s2 v3
             in (s3, message_processed v4 \<or> saved_any v4, types_saved_of v4))"

section \<open>The monitor loop and the channel operations\<close>

text \<open>
  \<open>UPDATE channel SET last_message_id = $1, last_check_at = CURRENT_TIMESTAMP
  WHERE tag_channel = $2\<close>.
\<close>

definition update_last_message_id :: "int \<Rightarrow> string \<Rightarrow> database \<Rightarrow> database" where
  "update_last_message_id i tag d =
     d\<lparr>channels := map (\<lambda>r. if ch_tag_channel r = tag then r\<lparr>ch_last_message_id := i\<rparr> else r)
                      (channels d)\<rparr>"

text \<open>\<open>Counter.update\<close> with a list of type names.\<close>

definition counter_update :: "string list \<Rightarrow> (string \<Rightarrow> nat) \<Rightarrow> (string \<Rightarrow> nat)" where
  "counter_update types c = fold (\<lambda>t c. c(t := Suc (c t))) types c"

text \<open>
  The body of \<open>async for msg in self.tg_client.iter_messages(entity, min_id=last_id)\<close> for
  one message. \<open>meta\<close> is the entry of the channel in \<open>monitored_channels\<close>, which
  \<open>_save_telethon_message\<close> never touches. The accumulator holds the bot and the loop
  variables \<open>new_count\<close> and \<open>content_counter\<close>.
\<close>

definition monitor_message ::
  "lib \<Rightarrow> string \<Rightarrow> tg_message \<Rightarrow> world \<Rightarrow> bot \<times> nat \<times> (string \<Rightarrow> nat)
     \<Rightarrow> bot \<times> nat \<times> (string \<Rightarrow> nat)" where
  "monitor_message L channel msg w acc =
     (case acc of (s, new_count, content_counter) \<Rightarrow>
        (case monitored_channels s channel of
           None \<Rightarrow> acc
         | Some meta \<Rightarrow>
             (case save_telethon_message L w msg (Some channel) (meta_channel_id meta) s of
                (s1, success, types_saved) \<Rightarrow>
                  if success
                  then
                    (if tg_id msg \<noteq> 0 \<and> tg_id msg > last_id meta
                     then
                       let s2 = s1\<lparr>monitored_channels :=
                                     (monitored_channels s1)(channel \<mapsto> meta\<lparr>last_id := tg_id msg\<rparr>)\<rparr>;
                           s3 = (if db_pool s2
                                 then s2\<lparr>db := update_last_message_id (tg_id msg) channel (db s2)\<rparr>
                                 else s2)
                       in (s3, new_count + 1, counter_update types_saved content_counter)
                     else (s1, new_count + 1, counter_update types_saved content_counter))
                  else (s1, new_count, content_counter))))"

fun monitor_messages ::
  "lib \<Rightarrow> string \<Rightarrow> (tg_message \<times> world) list \<Rightarrow> bot \<times> nat \<times> (string \<Rightarrow> nat)
     \<Rightarrow> bot \<times> nat \<times> (string \<Rightarrow> nat)" where
  "monitor_messages L channel [] acc = acc"
| "monitor_messages L channel (mw # rest) acc =
     monitor_messages L channel rest (monitor_message L channel (fst mw) (snd mw) acc)"

text \<open>
  \<open>iter_messages(entity, min_id=last_id)\<close>: the messages of the channel with an id above
  \<open>min_id\<close>, in the order in which the transport yields them. Each message comes with
  what the world answers while it is processed.
\<close>

definition iter_messages :: "(tg_message \<times> world) list \<Rightarrow> int \<Rightarrow> (tg_message \<times> world) list" where
  "iter_messages history min_id = filter (\<lambda>mw. tg_id (fst mw) > min_id) history"

text \<open>
  One pass of \<open>_monitor_loop\<close> for one channel of \<open>monitored_channels\<close>. The third
  argument is what \<open>get_entity\<close> resolves the channel to (\<open>None\<close> when it raises). The
  result carries \<open>new_count\<close> and \<open>content_counter\<close>, from which the notification text is
  formatted when \<open>new_count\<close> is not zero.
\<close>

definition monitor_channel ::
  "lib \<Rightarrow> string \<Rightarrow> (tg_message \<times> world) list option \<Rightarrow> bot \<Rightarrow> bot \<times> nat \<times> (string \<Rightarrow> nat)" where
  "monitor_channel L channel entity s =
     (if \<not> tg_client s then (s, 0, \<lambda>_. 0)
      else
        (case monitored_channels s channel of
           None \<Rightarrow> (s, 0, \<lambda>_. 0)
         | Some meta \<Rightarrow>
             if \<not> is_active meta then (s, 0, \<lambda>_. 0)
             else
               (case entity of
                  None \<Rightarrow> (s, 0, \<lambda>_. 0)
                | Some history \<Rightarrow>
                    monitor_messages L channel (iter_messages history (last_id meta))
                      (s, 0, \<lambda>_. 0))))"

text \<open>
  Whether the loop body reports \<open>success\<close> for a message in a state, and the ids of the
  messages of a batch for which it does, each one processed in the state that the
  messages before it left behind.
\<close>

definition message_success :: "lib \<Rightarrow> string \<Rightarrow> tg_message \<Rightarrow> world \<Rightarrow> bot \<Rightarrow> bool" where
  "message_success L channel msg w s =
     (case monitored_channels s channel of
        None \<Rightarrow> False
      | Some meta \<Rightarrow>
          fst (snd (save_telethon_message L w msg (Some channel) (meta_channel_id meta) s)))"

fun processed_ids :: "lib \<Rightarrow> string \<Rightarrow> (tg_message \<times> world) list \<Rightarrow> bot \<Rightarrow> int list" where
  "processed_ids L channel [] s = []"
| "processed_ids L channel (mw # rest) s =
     (if message_success L channel (fst mw) (snd mw) s then [tg_id (fst mw)] else []) @
     processed_ids L channel rest (fst (monitor_message L channel (fst mw) (snd mw) (s, 0, \<lambda>_. 0)))"

text \<open>
  \<open>INSERT INTO channel (tag_channel, name_channel, is_active, added_by, last_message_id, ..)\<close>
  with \<open>tag_channel\<close> and \<open>name_channel\<close> both \<open>VARCHAR(50) NOT NULL CHECK(LENGTH(..) > 3)\<close>.
\<close>

definition insert_channel ::
  "string \<Rightarrow> string \<Rightarrow> bool \<Rightarrow> int \<Rightarrow> int \<Rightarrow> database \<Rightarrow> database \<times> nat option" where
  "insert_channel tag name active added_by last_message_id d =
     (let new_id = Suc (channel_seq d);
          d1 = d\<lparr>channel_seq := new_id\<rparr>
      in if 3 < length tag \<and> length tag \<le> 50 \<and> 3 < length name \<and> length name \<le> 50
         then (d1\<lparr>channels := channels d1 @
                    [\<lparr>ch_channel_id = new_id, ch_tag_channel = tag, ch_name_channel = name,
                      ch_is_active = active, ch_added_by = added_by,
                      ch_last_message_id = last_message_id\<rparr>]\<rparr>,
               Some new_id)
         else (d1, None))"

text \<open>
  \<open>UPDATE channel SET is_active = TRUE, added_by = $2, last_message_id = $3, ..
  WHERE tag_channel = $1\<close>.
\<close>

definition reactivate_channel :: "string \<Rightarrow> int \<Rightarrow> int \<Rightarrow> database \<Rightarrow> database" where
  "reactivate_channel tag added_by last_message_id d =
     d\<lparr>channels := map (\<lambda>r. if ch_tag_channel r = tag
                            then r\<lparr>ch_is_active := True, ch_added_by := added_by,
                                   ch_last_message_id := last_message_id\<rparr>
                            else r) (channels d)\<rparr>"

text \<open>
  \<open>_add_channel\<close>. The third argument is the resolved entity: its title and its messages
  as \<open>iter_messages\<close> yields them, newest first; \<open>None\<close> when \<open>get_entity\<close> raises. Without
  a pool \<open>channel_id\<close> is unbound where the dictionary entry is built, and the
  \<open>UnboundLocalError\<close> ends in the handler, as a failing \<open>INSERT\<close> does.
\<close>

definition add_channel ::
  "string \<Rightarrow> int \<Rightarrow> (string \<times> tg_message list) option \<Rightarrow> bot \<Rightarrow> bot \<times> bool" where
  "add_channel channel added_by entity s =
     (if \<not> tg_client s then (s, False)
      else
        (case entity of
           None \<Rightarrow> (s, False)
         | Some (channel_title, history) \<Rightarrow>
             let last_id' = (case history of [] \<Rightarrow> 0 | last_msg # _ \<Rightarrow> tg_id last_msg)
             in if db_pool s
                then
                  (case select_channel_id channel (db s) of
                     Some channel_id \<Rightarrow>
                       (s\<lparr>db := reactivate_channel channel added_by last_id' (db s),
                          monitored_channels := (monitored_channels s)(channel \<mapsto>
                            \<lparr>is_active = True, last_id = last_id',
                             meta_channel_id = Some channel_id\<rparr>)\<rparr>,
                        True)
                   | None \<Rightarrow>
                       (case insert_channel channel channel_title True added_by last_id' (db s) of
                          (d1, None) \<Rightarrow> (s\<lparr>db := d1\<rparr>, False)
                        | (d1, Some channel_id) \<Rightarrow>
                            (s\<lparr>db := d1,
                               monitored_channels := (monitored_channels s)(channel \<mapsto>
                                 \<lparr>is_active = True, last_id = last_id',
                                  meta_channel_id = Some channel_id\<rparr>)\<rparr>,
                             True)))
                else (s, False)))"

text \<open>
  \<open>_stop_channel\<close>: \<open>UPDATE channel SET is_active = FALSE, .. WHERE tag_channel = $1\<close>,
  \<open>False\<close> when the status is \<open>"UPDATE 0"\<close>, then the flag in memory.
\<close>

definition deactivate_channel :: "string \<Rightarrow> database \<Rightarrow> database" where
  "deactivate_channel tag d =
     d\<lparr>channels := map (\<lambda>r. if ch_tag_channel r = tag then r\<lparr>ch_is_active := False\<rparr> else r)
                      (channels d)\<rparr>"

definition stop_channel :: "string \<Rightarrow> bot \<Rightarrow> bot \<times> bool" where
  "stop_channel channel s =
     (if db_pool s \<and> filter (\<lambda>r. ch_tag_channel r = channel) (channels (db s)) = []
      then (s, False)
      else
        let s1 = (if db_pool s then s\<lparr>db := deactivate_channel channel (db s)\<rparr> else s)
        in (case monitored_channels s1 channel of
              None \<Rightarrow> (s1, True)
            | Some meta \<Rightarrow>
                (s1\<lparr>monitored_channels :=
                      (monitored_channels s1)(channel \<mapsto> meta\<lparr>is_active := False\<rparr>)\<rparr>,
                 True)))"

section \<open>The handlers of the bot's own messages\<close>

text \<open>What the outside world answers while one aiogram message is processed.\<close>

record aio_world =
  aw_stamp :: string               \<comment> \<open>\<open>strftime\<close> stamp of the file name\<close>
  aw_write :: bool                 \<comment> \<open>does writing the file succeed\<close>
  aw_download :: "string option"   \<comment> \<open>\<open>_download_file\<close>: \<open>None\<close> when the download fails\<close>

text \<open>\<open>_process_single_file\<close>.\<close>

definition process_single_file ::
  "lib \<Rightarrow> aio_world \<Rightarrow> content_type \<Rightarrow> string option \<Rightarrow> bot \<Rightarrow> bot \<times> bool" where
  "process_single_file L w ct original_name s =
     (if \<not> truthy_str (aw_download w) then (s, False)
      else
        let file_data = the (aw_download w);
            h = md5_hexdigest L file_data
        in if is_duplicate h s then (s, False)
           else
             let filename = generate_filename original_name ct (aw_stamp w);
                 (s1, file_path) = save_file_locally (aw_write w) file_data filename ct s
             in if truthy_str file_path
                then (record_processed h (the file_path) s1, True)
                else (s1, False))"

text \<open>\<open>_process_text\<close>: the file is written before the fingerprint is looked up.\<close>

definition process_text :: "lib \<Rightarrow> aio_world \<Rightarrow> string option \<Rightarrow> bot \<Rightarrow> bot \<times> bool" where
  "process_text L w text s =
     (if \<not> truthy_str text then (s, False)
      else
        let text_data = the text;
            filename = generate_filename None Text (aw_stamp w);
            (s1, file_path) = save_file_locally (aw_write w) text_data filename Text s
        in if truthy_str file_path
           then
             (let h = md5_hexdigest L text_data
              in if \<not> is_duplicate h s1
                 then (record_processed h (the file_path) s1, True)
                 else (s1, False))
           else (s1, False))"

text \<open>
  \<open>max(photos, key=lambda p: p.file_size or 0)\<close>: the first photo of the largest size.
\<close>

definition size_key :: "file_ref \<Rightarrow> nat" where
  "size_key p = (case file_size p of None \<Rightarrow> 0 | Some n \<Rightarrow> n)"

fun largest_from :: "file_ref \<Rightarrow> file_ref list \<Rightarrow> file_ref" where
  "largest_from best [] = best"
| "largest_from best (p # ps) =
     largest_from (if size_key best < size_key p then p else best) ps"

definition process_photo :: "lib \<Rightarrow> aio_world \<Rightarrow> file_ref list \<Rightarrow> bot \<Rightarrow> bot \<times> bool" where
  "process_photo L w photos s =
     (case photos of
        [] \<Rightarrow> (s, False)
      | p # ps \<Rightarrow>
          let largest_photo = largest_from p ps
          in process_single_file L w Image
               (Some (''photo_'' @ file_id largest_photo @ ''.jpg'')) s)"

text \<open>
  \<open>_process_message_content\<close> with \<open>_process_document\<close>, \<open>_process_video\<close>,
  \<open>_process_audio\<close>, \<open>_process_sticker\<close> and \<open>_process_animation\<close> inlined. It returns
  nothing; its handler catches every exception.
\<close>

definition process_message_content :: "lib \<Rightarrow> aio_world \<Rightarrow> aio_message \<Rightarrow> bot \<Rightarrow> bot" where
  "process_message_content L w message s =
     (case aio_payload message of
        TEXT text \<Rightarrow> fst (process_text L w text s)
      | PHOTO photos \<Rightarrow> fst (process_photo L w photos s)
      | DOCUMENT document \<Rightarrow> fst (process_single_file L w Document (file_name document) s)
      | VIDEO video \<Rightarrow> fst (process_single_file L w Video (file_name video) s)
      | AUDIO audio \<Rightarrow>
          fst (process_single_file L w Audio
                 (if truthy_str (file_name audio) then file_name audio
                  else Some (''audio_'' @ file_id audio @ ''.mp3'')) s)
      | STICKER sticker \<Rightarrow>
          fst (process_single_file L w Sticker
                 (Some (''sticker_'' @ file_id sticker @ ''.webp'')) s)
      | ANIMATION animation \<Rightarrow>
          fst (process_single_file L w Animation
                 (if truthy_str (file_name animation) then file_name animation
                  else Some (''animation_'' @ file_id animation @ ''.gif'')) s)
      | OTHER \<Rightarrow> s)"

subsection \<open>Media groups\<close>

text \<open>
  \<open>_handle_media_group\<close> appends the fragment to the list of its group and ends with
  \<open>asyncio.create_task(process_group_later())\<close>: a task that sleeps two seconds, looks
  the group up and, when it is there, awaits \<open>_process_media_group\<close> on the list object
  of the group. That method processes the fragments one after the other and deletes the
  group from the dictionary after the last one. Processing a fragment that has a file
  awaits its download (\<open>_download_file\<close>, which awaits \<open>get_file\<close> and then
  \<open>download_file\<close>, with no effect on the bot between the two), where the task is
  suspended and the event loop runs other handlers and tasks; a text is processed
  without suspension. What the outside world answers to a message depends on the time,
  \<open>env t message\<close>.

  The event loop is modelled by the list of the tasks created so far. A task is asleep
  until a time (in milliseconds) for a group id, or suspended in the download of the
  fragment at an index of a list object, or finished. The list objects live in a store,
  by address, since a task keeps iterating its list after the group was deleted from
  the dictionary, and sees what is appended to the list while it is suspended.
  \<open>rt_flushes\<close> records the calls of \<open>_process_media_group\<close>, each with its time and
  with the content of its argument at the call (the call logs the number of items).
\<close>

datatype task = Sleeping nat string | Downloading nat nat | Finished

record runtime =
  rt_bot :: bot
  rt_now :: nat
  rt_lists :: "nat \<rightharpoonup> aio_message list"
  rt_next :: nat
  rt_tasks :: "task list"
  rt_flushes :: "(nat \<times> aio_message list) list"

definition list_object :: "runtime \<Rightarrow> nat \<Rightarrow> aio_message list" where
  "list_object r a = (case rt_lists r a of None \<Rightarrow> [] | Some messages \<Rightarrow> messages)"

text \<open>
  \<open>_handle_media_group\<close> at the time \<open>rt_now\<close>. It has no suspension point. A new list
  object gets the next free address.
\<close>

definition handle_media_group :: "aio_message \<Rightarrow> runtime \<Rightarrow> runtime \<times> bool" where
  "handle_media_group message r =
     (if \<not> truthy_str (media_group_id message) then (r, False)
      else
        let g = the (media_group_id message);
            r1 = (case media_groups (rt_bot r) g of
                    None \<Rightarrow>
                      r\<lparr>rt_bot := (rt_bot r)\<lparr>media_groups :=
                                      (media_groups (rt_bot r))(g \<mapsto> rt_next r)\<rparr>,
                        rt_lists := (rt_lists r)(rt_next r \<mapsto> []),
                        rt_next := Suc (rt_next r)\<rparr>
                  | Some a \<Rightarrow> r);
            a = the (media_groups (rt_bot r1) g);
            r2 = r1\<lparr>rt_lists := (rt_lists r1)(a \<mapsto> list_object r1 a @ [message])\<rparr>
        in (r2\<lparr>rt_tasks := rt_tasks r2 @ [Sleeping (rt_now r2 + 2000) g]\<rparr>, True))"

text \<open>
  Whether processing a message awaits a download: every kind with a file does, a photo
  message without photo sizes and a text do not.
\<close>

definition needs_download :: "aio_message \<Rightarrow> bool" where
  "needs_download message =
     (case aio_payload message of
        TEXT text \<Rightarrow> False
      | PHOTO photos \<Rightarrow> photos \<noteq> []
      | OTHER \<Rightarrow> False
      | _ \<Rightarrow> True)"

text \<open>
  The loop \<open>for message in messages\<close> of \<open>_process_media_group\<close> from the message at
  index \<open>i\<close> on, up to its next suspension: the messages that need no download are
  processed; the result is the index of the message whose download is awaited, or
  \<open>None\<close> when the loop has reached the end of the list.
\<close>

fun process_until_await ::
  "lib \<Rightarrow> (aio_message \<Rightarrow> aio_world) \<Rightarrow> aio_message list \<Rightarrow> nat \<Rightarrow> bot \<Rightarrow> bot \<times> nat option" where
  "process_until_await L env [] i s = (s, None)"
| "process_until_await L env (message # rest) i s =
     (if needs_download message then (s, Some i)
      else process_until_await L env rest (Suc i)
             (process_message_content L (env message) message s))"

text \<open>What follows the loop: the group of the first message is deleted from the dictionary.\<close>

definition delete_group :: "aio_message list \<Rightarrow> bot \<Rightarrow> bot" where
  "delete_group messages s =
     (case messages of
        [] \<Rightarrow> s
      | m0 # _ \<Rightarrow>
          if truthy_str (media_group_id m0)
          then (let g = the (media_group_id m0)
                in if media_groups s g \<noteq> None
                   then s\<lparr>media_groups := (media_groups s)(g := None)\<rparr>
                   else s)
          else s)"

text \<open>
  Task \<open>k\<close> runs \<open>_process_media_group\<close> on the list object at \<open>a\<close> from index \<open>i\<close> on,
  until it is suspended again or has finished.
\<close>

definition continue_flush ::
  "lib \<Rightarrow> (nat \<Rightarrow> aio_message \<Rightarrow> aio_world) \<Rightarrow> nat \<Rightarrow> nat \<Rightarrow> nat \<Rightarrow> runtime \<Rightarrow> runtime" where
  "continue_flush L env k a i r =
     (let messages = list_object r a
      in case process_until_await L (env (rt_now r)) (drop i messages) i (rt_bot r) of
           (s1, Some j) \<Rightarrow> r\<lparr>rt_bot := s1, rt_tasks := (rt_tasks r)[k := Downloading a j]\<rparr>
         | (s1, None) \<Rightarrow>
             r\<lparr>rt_bot := delete_group messages s1, rt_tasks := (rt_tasks r)[k := Finished]\<rparr>)"

text \<open>
  The sleep of task \<open>k\<close> ends: \<open>process_group_later\<close> looks the group up and, when it is
  there, calls \<open>_process_media_group\<close> with its list. \<open>None\<close>: the task is not asleep, or
  its two seconds have not passed.
\<close>

definition wake ::
  "lib \<Rightarrow> (nat \<Rightarrow> aio_message \<Rightarrow> aio_world) \<Rightarrow> nat \<Rightarrow> runtime \<Rightarrow> runtime option" where
  "wake L env k r =
     (if k < length (rt_tasks r)
      then (case rt_tasks r ! k of
              Sleeping until g \<Rightarrow>
                if until \<le> rt_now r
                then (case media_groups (rt_bot r) g of
                        None \<Rightarrow> Some (r\<lparr>rt_tasks := (rt_tasks r)[k := Finished]\<rparr>)
                      | Some a \<Rightarrow>
                          Some (continue_flush L env k a 0
                                  (r\<lparr>rt_flushes := rt_flushes r @
                                        [(rt_now r, list_object r a)]\<rparr>)))
                else None
            | _ \<Rightarrow> None)
      else None)"

text \<open>
  The download that task \<open>k\<close> awaits ends: the message is processed with what the download
  returned, and the loop goes on. \<open>None\<close>: the task awaits no download.
\<close>

definition downloaded ::
  "lib \<Rightarrow> (nat \<Rightarrow> aio_message \<Rightarrow> aio_world) \<Rightarrow> nat \<Rightarrow> runtime \<Rightarrow> runtime option" where
  "downloaded L env k r =
     (if k < length (rt_tasks r)
      then (case rt_tasks r ! k of
              Downloading a i \<Rightarrow>
                if i < length (list_object r a)
                then (let message = list_object r a ! i
                      in Some (continue_flush L env k a (Suc i)
                                 (r\<lparr>rt_bot := process_message_content L
                                                 (env (rt_now r) message) message
                                                 (rt_bot r)\<rparr>)))
                else None
            | _ \<Rightarrow> None)
      else None)"

text \<open>
  What the event loop does next, with its time: the bot receives a message of a media
  group, the sleep of a task ends, or the download of a task ends. Time does not go
  back. A run is a list of such events; it is \<open>None\<close> when one of them cannot happen.
\<close>

datatype event = Arrive aio_message | Wake nat | Downloaded nat

definition step ::
  "lib \<Rightarrow> (nat \<Rightarrow> aio_message \<Rightarrow> aio_world) \<Rightarrow> nat \<times> event \<Rightarrow> runtime \<Rightarrow> runtime option" where
  "step L env te r =
     (if fst te < rt_now r then None
      else
        (case snd te of
           Arrive message \<Rightarrow> Some (fst (handle_media_group message (r\<lparr>rt_now := fst te\<rparr>)))
         | Wake k \<Rightarrow> wake L env k (r\<lparr>rt_now := fst te\<rparr>)
         | Downloaded k \<Rightarrow> downloaded L env k (r\<lparr>rt_now := fst te\<rparr>)))"

fun run ::
  "lib \<Rightarrow> (nat \<Rightarrow> aio_message \<Rightarrow> aio_world) \<Rightarrow> (nat \<times> event) list \<Rightarrow> runtime \<Rightarrow> runtime option" where
  "run L env [] r = Some r"
| "run L env (te # events) r =
     (case step L env te r of None \<Rightarrow> None | Some r1 \<Rightarrow> run L env events r1)"

section \<open>Notions of the specification\<close>

text \<open>
  The precedence list of the specification, photo > video > audio > sticker > animation,
  each kind with its predicate on the raw item, and the classification that the
  specification describes: the first kind of the list whose predicate holds, \<open>document\<close>
  when none does.
\<close>

definition kind_precedence :: "(content_type \<times> (tg_message \<Rightarrow> bool)) list" where
  "kind_precedence =
     [(Image, tg_photo), (Video, tg_video), (Audio, tg_audio), (Sticker, tg_sticker),
      (Animation, \<lambda>m. tg_gif m \<or> tg_animation m)]"

definition classify_by_precedence :: "tg_message \<Rightarrow> content_type" where
  "classify_by_precedence msg =
     (case find (\<lambda>kp. snd kp msg) kind_precedence of
        Some kp \<Rightarrow> fst kp
      | None \<Rightarrow> Document)"

text \<open>
  A unified record without any content reference: the next id of the table, the key
  \<open>(channel_id, telegram_message_id)\<close>, the normalised creation time and a fingerprint.
\<close>

definition placeholder_row ::
  "world \<Rightarrow> tg_message \<Rightarrow> nat \<Rightarrow> string option \<Rightarrow> database \<Rightarrow> message_channel_row" where
  "placeholder_row w msg cid h d =
     \<lparr>mc_message_id = Suc (message_channel_seq d), mc_channel_id = cid,
      mc_creation_time = normalize_datetime (tg_date msg) (w_now w),
      mc_text_id = None, mc_photo_id = None, mc_video_id = None, mc_audio_id = None,
      mc_document_id = None, mc_sticker_id = None, mc_animation_id = None, mc_link_id = None,
      mc_telegram_message_id = tg_id msg, mc_file_hash = h\<rparr>"

text \<open>The unified records of a key.\<close>

definition key_rows :: "int \<Rightarrow> nat \<Rightarrow> database \<Rightarrow> message_channel_row list" where
  "key_rows message_id channel_id d =
     filter (\<lambda>r. mc_telegram_message_id r = message_id \<and> mc_channel_id r = channel_id)
       (message_channel d)"

text \<open>The path of the file that the text block writes.\<close>

definition text_path :: "string \<Rightarrow> bot \<Rightarrow> string" where
  "text_path stamp s =
     path_join (path_join (download_path s) ''text'') (generate_filename None Text stamp)"

text \<open>
  A message all of whose content is a duplicate: it has text or media, its text (if any)
  is written and its fingerprint is in \<open>processed_content\<close>, its media (if any) are
  downloaded and their fingerprint is in \<open>processed_content\<close>. The fingerprint that the
  method holds at its end is that of the media when there are media, else that of the
  text.
\<close>

definition all_duplicate :: "lib \<Rightarrow> world \<Rightarrow> tg_message \<Rightarrow> bot \<Rightarrow> bool" where
  "all_duplicate L w msg s =
     ((truthy_str (tg_text msg) \<or> tg_media msg) \<and>
      (truthy_str (tg_text msg) \<longrightarrow>
         w_write_text w \<and> is_duplicate (md5_hexdigest L (the (tg_text msg))) s) \<and>
      (tg_media msg \<longrightarrow>
         tg_client s \<and> truthy_str (w_download w) \<and>
         is_duplicate (md5_hexdigest L (the (w_download w))) s))"

definition content_fingerprint :: "lib \<Rightarrow> world \<Rightarrow> tg_message \<Rightarrow> string" where
  "content_fingerprint L w msg =
     (if tg_media msg then md5_hexdigest L (the (w_download w))
      else md5_hexdigest L (the (tg_text msg)))"

text \<open>The path of the file that the media block writes.\<close>

definition media_path :: "tg_message \<Rightarrow> string \<Rightarrow> bot \<Rightarrow> string" where
  "media_path msg stamp s =
     path_join (path_join (download_path s) (type_name (infer_content_type msg)))
       (generate_filename None (infer_content_type msg) stamp)"

text \<open>
  What the text block and the media block of \<open>_save_telethon_message\<close> leave as it is:
  the unified records, the channel table, the dictionaries of channels and of media
  groups, and the configuration.
\<close>

definition untouched :: "bot \<Rightarrow> bot \<Rightarrow> bool" where
  "untouched s s' =
     (message_channel (db s') = message_channel (db s) \<and>
      message_channel_seq (db s') = message_channel_seq (db s) \<and>
      channels (db s') = channels (db s) \<and>
      monitored_channels s' = monitored_channels s \<and>
      media_groups s' = media_groups s \<and>
      db_pool s' = db_pool s \<and> tg_client s' = tg_client s \<and>
      download_path s' = download_path s)"

section \<open>A concrete scenario\<close>

text \<open>
  An instance of the two library functions: a digest without collisions (the data
  itself) and the \<open>netloc\<close> of an http(s) URL, which ends before the first of \<open>/\<close>, \<open>?\<close>, \<open>#\<close>
  and is refused by \<open>urlparse\<close> when it holds one square bracket without the other.
\<close>

definition example_digest :: "string \<Rightarrow> string" where
  "example_digest data = data"

definition netloc_of :: "string \<Rightarrow> string option" where
  "netloc_of u =
     (let rest = (case strip_prefix ''https://'' u of
                    Some r \<Rightarrow> r
                  | None \<Rightarrow> (case strip_prefix ''http://'' u of Some r \<Rightarrow> r | None \<Rightarrow> []));
          n = takeWhile (\<lambda>c. c \<notin> set ''/?#'') rest
      in if (CHR ''['' \<in> set n) \<noteq> (CHR '']'' \<in> set n) then None else Some n)"

definition example_lib :: lib where
  "example_lib = \<lparr>md5_hexdigest = example_digest, urlparse_netloc = netloc_of\<rparr>"

text \<open>
  The store holds the channel \<open>@chan\<close> with id 1 and cursor 100 and nothing else; the bot
  has a Telethon client and a pool, and monitors the channel.
\<close>

definition example_db :: database where
  "example_db =
     \<lparr>content_tables = (\<lambda>_. []), content_seq = (\<lambda>_. 0), links = [], links_seq = 0,
      channels = [\<lparr>ch_channel_id = 1, ch_tag_channel = ''@chan'', ch_name_channel = ''Chan'',
                   ch_is_active = True, ch_added_by = 0, ch_last_message_id = 100\<rparr>],
      channel_seq = 1, message_channel = [], message_channel_seq = 0\<rparr>"

definition example_bot :: bot where
  "example_bot =
     \<lparr>download_path = ''./downloads'', tg_client = True, db_pool = True, db = example_db,
      files = [], processed_content = Map.empty, media_groups = Map.empty,
      monitored_channels =
        [''@chan'' \<mapsto> \<lparr>is_active = True, last_id = 100, meta_channel_id = Some 1\<rparr>]\<rparr>"

definition example_world :: world where
  "example_world =
     \<lparr>w_now = \<lparr>instant = 1700000000, tzinfo = None\<rparr>, w_stamp_text = ''20240101_000000_000001'',
      w_stamp_media = ''20240101_000000_000002'', w_write_text = True, w_write_media = True,
      w_download = Some ''JPEGDATA''\<rparr>"

definition text_message :: "int \<Rightarrow> string \<Rightarrow> tg_message" where
  "text_message i t =
     \<lparr>tg_id = i, tg_date = None, tg_text = Some t, tg_media = False, tg_photo = False,
      tg_video = False, tg_audio = False, tg_sticker = False, tg_gif = False,
      tg_animation = False\<rparr>"

definition empty_message :: "int \<Rightarrow> tg_message" where
  "empty_message i =
     \<lparr>tg_id = i, tg_date = None, tg_text = None, tg_media = False, tg_photo = False,
      tg_video = False, tg_audio = False, tg_sticker = False, tg_gif = False,
      tg_animation = False\<rparr>"

definition photo_message :: "int \<Rightarrow> string \<Rightarrow> tg_message" where
  "photo_message i t =
     \<lparr>tg_id = i, tg_date = None, tg_text = Some t, tg_media = True, tg_photo = True,
      tg_video = False, tg_audio = False, tg_sticker = False, tg_gif = False,
      tg_animation = False\<rparr>"

text \<open>
  The scenario of the specification: the channel posts message 101 with the text
  \<open>hello https://a.com/x\<close>, then message 102 with the same text.
\<close>

definition after_101 :: bot where
  "after_101 =
     fst (save_telethon_message example_lib example_world
            (text_message 101 ''hello https://a.com/x'') (Some ''@chan'') (Some 1) example_bot)"

definition after_102 :: bot where
  "after_102 =
     fst (save_telethon_message example_lib example_world
            (text_message 102 ''hello https://a.com/x'') (Some ''@chan'') (Some 1) after_101)"

text \<open>
  A second scenario: the bot itself receives the text as a direct message (handled by
  \<open>_process_text\<close>, which records the fingerprint and stores nothing in the database)
  before the channel posts it as message 101.
\<close>

definition example_aio_world :: aio_world where
  "example_aio_world =
     \<lparr>aw_stamp = ''20240101_000000_000000'', aw_write = True,
      aw_download = Some ''hello https://a.com/x''\<rparr>"

definition failing_aio_world :: aio_world where
  "failing_aio_world =
     \<lparr>aw_stamp = ''20240101_000000_000000'', aw_write = True, aw_download = None\<rparr>"

definition after_direct :: bot where
  "after_direct =
     fst (process_text example_lib example_aio_world (Some ''hello https://a.com/x'')
            example_bot)"

definition after_direct_101 :: bot where
  "after_direct_101 =
     fst (save_telethon_message example_lib example_world
            (text_message 101 ''hello https://a.com/x'') (Some ''@chan'') (Some 1) after_direct)"

text \<open>
  A third scenario: the channel posts message 101, a photo with the caption
  \<open>hello https://a.com/x\<close>.
\<close>

definition after_photo :: bot where
  "after_photo =
     fst (save_telethon_message example_lib example_world
            (photo_message 101 ''hello https://a.com/x'') (Some ''@chan'') (Some 1) example_bot)"

text \<open>Message 101 of the first scenario, processed a second time.\<close>

definition after_101_again :: bot where
  "after_101_again =
     fst (save_telethon_message example_lib example_world
            (text_message 101 ''hello https://a.com/x'') (Some ''@chan'') (Some 1) after_101)"

section \<open>Cycles of the monitor loop\<close>

text \<open>
  The messages that one pass of \<open>_monitor_loop\<close> iterates for a channel, that is, hands
  to \<open>_save_telethon_message\<close>: none when there is no client, when the channel is not
  monitored or not active, or when it cannot be resolved.
\<close>

definition cycle_batch ::
  "string \<Rightarrow> (tg_message \<times> world) list option \<Rightarrow> bot \<Rightarrow> (tg_message \<times> world) list" where
  "cycle_batch channel entity s =
     (if \<not> tg_client s then []
      else
        (case monitored_channels s channel of
           None \<Rightarrow> []
         | Some meta \<Rightarrow>
             if \<not> is_active meta then []
             else (case entity of None \<Rightarrow> [] | Some history \<Rightarrow> iter_messages history (last_id meta))))"

text \<open>
  The ids of the messages that a sequence of passes iterates, one entity (the state of
  the channel on the platform) for each pass.
\<close>

fun iterated_ids ::
  "lib \<Rightarrow> string \<Rightarrow> (tg_message \<times> world) list option list \<Rightarrow> bot \<Rightarrow> int list" where
  "iterated_ids L channel [] s = []"
| "iterated_ids L channel (entity # entities) s =
     map (\<lambda>mw. tg_id (fst mw)) (cycle_batch channel entity s) @
     iterated_ids L channel entities (fst (monitor_channel L channel entity s))"

text \<open>The cursor of a channel in memory.\<close>

definition cursor :: "bot \<Rightarrow> string \<Rightarrow> int option" where
  "cursor s channel = map_option last_id (monitored_channels s channel)"

text \<open>
  The id that \<open>_add_channel\<close> takes as the cursor: that of the first message that
  \<open>iter_messages(entity, limit=1)\<close> yields, 0 when the channel has no message.
\<close>

definition latest_id :: "tg_message list \<Rightarrow> int" where
  "latest_id history = (case history of [] \<Rightarrow> 0 | last_msg # _ \<Rightarrow> tg_id last_msg)"

text \<open>
  Scenarios for the monitor loop. The channel \<open>@chan\<close> of \<open>example_bot\<close> has the cursor 100;
  the transport then yields the messages 101, 103 and 102 in this order. A bot that does
  not know the channel yet registers it when its newest message is 100. The monitored
  channel is stopped and registered again after the messages 101 and 102 were posted.
\<close>

definition out_of_order_batch :: "(tg_message \<times> world) list" where
  "out_of_order_batch =
     [(text_message 101 ''one'', example_world), (text_message 103 ''three'', example_world),
      (text_message 102 ''two'', example_world)]"

definition fresh_bot :: bot where
  "fresh_bot = example_bot\<lparr>db := example_db\<lparr>channels := [], channel_seq := 0\<rparr>,
                            monitored_channels := Map.empty\<rparr>"

definition registered :: bot where
  "registered =
     fst (add_channel ''@chan'' 7
            (Some (''Chan'', [text_message 100 ''old'', text_message 99 ''older''])) fresh_bot)"

definition history_101 :: "(tg_message \<times> world) list" where
  "history_101 =
     [(text_message 101 ''new'', example_world), (text_message 100 ''old'', example_world),
      (text_message 99 ''older'', example_world)]"

definition stopped :: bot where
  "stopped = fst (stop_channel ''@chan'' example_bot)"

definition reactivated :: bot where
  "reactivated =
     fst (add_channel ''@chan'' 7
            (Some (''Chan'', [text_message 102 ''two'', text_message 101 ''one'',
                             text_message 100 ''old''])) stopped)"

definition history_102 :: "(tg_message \<times> world) list" where
  "history_102 =
     [(text_message 102 ''two'', example_world), (text_message 101 ''one'', example_world),
      (text_message 100 ''old'', example_world)]"

section \<open>Runs in which a media group arrives\<close>

text \<open>
  The fragments of a list, each received at its time.
\<close>

definition arrivals :: "(nat \<times> aio_message) list \<Rightarrow> (nat \<times> event) list" where
  "arrivals frs = map (\<lambda>tm. (fst tm, Arrive (snd tm))) frs"

text \<open>The events of a run at which a message arrives, and the runs without them.\<close>

definition is_arrival :: "nat \<times> event \<Rightarrow> bool" where
  "is_arrival te = (case snd te of Arrive message \<Rightarrow> True | _ \<Rightarrow> False)"





subsection \<open>A media group of two photos\<close>








section \<open>When the insert of the unified record is accepted\<close>

text \<open>
  The fingerprints that a call of \<open>_save_telethon_message\<close> can hold at its end: that of
  the text and that of the downloaded media.
\<close>

definition message_fingerprints :: "lib \<Rightarrow> world \<Rightarrow> tg_message \<Rightarrow> string set" where
  "message_fingerprints L w msg =
     (case tg_text msg of None \<Rightarrow> {} | Some t \<Rightarrow> {md5_hexdigest L t}) \<union>
     (case w_download w of None \<Rightarrow> {} | Some data \<Rightarrow> {md5_hexdigest L data})"

text \<open>
  The links of the text fit the columns of \<open>links\<close>, so that the statement that stores
  the first link is not refused and the text block raises no exception.
\<close>

definition links_fit :: "lib \<Rightarrow> tg_message \<Rightarrow> bool" where
  "links_fit L msg =
     (case tg_text msg of
        None \<Rightarrow> True
      | Some t \<Rightarrow>
          (case extract_links L t of
             [] \<Rightarrow> True
           | link_data # _ \<Rightarrow> length (fst link_data) \<le> 500 \<and> length (snd link_data) \<le> 100))"

text \<open>
  The conditions under which the store accepts the unified record of a message that has
  none yet: a pool, a channel id and a message id that are set, a row of the channel
  table with the channel id, links that fit, and no unified record that holds one of
  the fingerprints of the message (each of at most 64 characters) in \<open>file_hash\<close>.
\<close>

definition insert_accepted :: "lib \<Rightarrow> world \<Rightarrow> tg_message \<Rightarrow> nat \<Rightarrow> bot \<Rightarrow> bool" where
  "insert_accepted L w msg cid s =
     (db_pool s \<and> cid \<noteq> 0 \<and> tg_id msg \<noteq> 0 \<and>
      list_ex (\<lambda>c. ch_channel_id c = cid) (channels (db s)) \<and>
      links_fit L msg \<and>
      (\<forall>h \<in> message_fingerprints L w msg. length h \<le> 64 \<and> \<not> hash_taken h (db s)))"

text \<open>Message 102 of the first scenario, processed a second time.\<close>

definition after_102_again :: bot where
  "after_102_again =
     fst (save_telethon_message example_lib example_world
            (text_message 102 ''hello https://a.com/x'') (Some ''@chan'') (Some 1) after_102)"

section \<open>Effects of the store operations and of the helpers\<close>

lemma insert_content_frame:
  "message_channel (fst (insert_content ct l n d)) = message_channel d"
  "links (fst (insert_content ct l n d)) = links d"
  "channels (fst (insert_content ct l n d)) = channels d"
  by (simp_all add: insert_content_def Let_def)

lemma upsert_link_frame:
  "message_channel (fst (upsert_link u dm d)) = message_channel d"
  "content_tables (fst (upsert_link u dm d)) = content_tables d"
  "channels (fst (upsert_link u dm d)) = channels d"
  by (simp_all add: upsert_link_def Let_def split: option.splits)

lemma insert_message_channel_frame:
  "links (fst (insert_message_channel r d)) = links d"
  "content_tables (fst (insert_message_channel r d)) = content_tables d"
  "channels (fst (insert_message_channel r d)) = channels d"
  by (simp_all add: insert_message_channel_def Let_def)

lemma path_join_nonempty: "b \<noteq> [] \<Longrightarrow> path_join a b \<noteq> []"
  by (simp add: path_join_def split: list.splits)

lemma generate_filename_nonempty: "generate_filename n ct ts \<noteq> []"
  by (cases ct) (simp_all add: generate_filename_def Let_def)

lemma save_file_locally_ok:
  "save_file_locally True data filename ct s =
     (s\<lparr>files := files s @
            [(path_join (path_join (download_path s) (type_name ct)) filename, data)]\<rparr>,
      Some (path_join (path_join (download_path s) (type_name ct)) filename))"
  by (simp add: save_file_locally_def Let_def)

lemma save_file_locally_fail: "save_file_locally False data filename ct s = (s, None)"
  by (simp add: save_file_locally_def Let_def)

section \<open>A message whose content is a duplicate\<close>

lemma save_text_none: "\<not> truthy_str (tg_text msg) \<Longrightarrow> save_text L w msg cid s v = (s, Some v)"
  by (simp add: save_text_def)

lemma save_text_dup:
  assumes "tg_text msg = Some t" "t \<noteq> []" "is_duplicate (md5_hexdigest L t) s"
  shows "save_text L w msg cid s v =
    (if w_write_text w
     then (s\<lparr>files := files s @ [(text_path (w_stamp_text w) s, t)]\<rparr>,
           Some (v\<lparr>message_processed := True, file_hash := Some (md5_hexdigest L t)\<rparr>))
     else (s, Some (v\<lparr>message_processed := True\<rparr>)))"
  using assms
  by (cases "w_write_text w")
     (simp_all add: save_text_def truthy_str_def Let_def save_file_locally_ok
        save_file_locally_fail path_join_nonempty generate_filename_nonempty is_duplicate_def
        text_path_def)

lemma save_media_none: "\<not> tg_media msg \<Longrightarrow> save_media L w msg cid s v = (s, v)"
  by (simp add: save_media_def)

lemma save_media_dup:
  assumes "tg_media msg" "tg_client s" "w_download w = Some data" "data \<noteq> []"
    "is_duplicate (md5_hexdigest L data) s"
  shows "save_media L w msg cid s v =
     (s, v\<lparr>message_processed := True, file_hash := Some (md5_hexdigest L data)\<rparr>)"
  using assms by (simp add: save_media_def Let_def)

lemma dup_vars:
  assumes "all_duplicate L w msg s"
  shows "\<exists>s1 v1. save_text L w msg cid s initial_vars = (s1, Some v1) \<and>
          save_media L w msg cid s1 v1 =
            (s1, initial_vars\<lparr>message_processed := True,
                   file_hash := Some (content_fingerprint L w msg)\<rparr>) \<and>
          s1 = s\<lparr>files := files s @
                   (if truthy_str (tg_text msg)
                    then [(text_path (w_stamp_text w) s, the (tg_text msg))] else [])\<rparr>"
proof (cases "truthy_str (tg_text msg)")
  case True
  then obtain t where t: "tg_text msg = Some t" "t \<noteq> []"
    by (auto simp: truthy_str_def split: option.splits)
  with assms True have d: "is_duplicate (md5_hexdigest L t) s" and wr: "w_write_text w"
    by (simp_all add: all_duplicate_def)
  show ?thesis
  proof (cases "tg_media msg")
    case False
    then show ?thesis using t d wr True
      by (simp add: save_text_dup [OF t d] save_media_none content_fingerprint_def
          initial_vars_def)
  next
    case m: True
    with assms obtain data where dl: "w_download w = Some data" "data \<noteq> []"
      and dd: "is_duplicate (md5_hexdigest L data) s" and cl: "tg_client s"
      by (auto simp: all_duplicate_def truthy_str_def split: option.splits)
    have dd': "is_duplicate (md5_hexdigest L data)
                 (s\<lparr>files := files s @ [(text_path (w_stamp_text w) s, t)]\<rparr>)"
      using dd by (simp add: is_duplicate_def)
    show ?thesis using t wr True m dl cl
      by (simp add: save_text_dup [OF t d] save_media_dup [OF m _ dl dd']
          content_fingerprint_def initial_vars_def)
  qed
next
  case False
  with assms have m: "tg_media msg" by (simp add: all_duplicate_def)
  with assms obtain data where dl: "w_download w = Some data" "data \<noteq> []"
    and dd: "is_duplicate (md5_hexdigest L data) s" and cl: "tg_client s"
    by (auto simp: all_duplicate_def truthy_str_def split: option.splits)
  show ?thesis using False m dl
    by (simp add: save_text_none save_media_dup [OF m cl dl dd] content_fingerprint_def
        initial_vars_def)
qed

lemma save_duplicate:
  assumes "all_duplicate L w msg s"
  shows "save_telethon_message L w msg channel_name (Some cid) s =
          (let s1 = s\<lparr>files := files s @
                       (if truthy_str (tg_text msg)
                        then [(text_path (w_stamp_text w) s, the (tg_text msg))] else [])\<rparr>;
               v3 = initial_vars\<lparr>message_processed := True,
                      file_hash := Some (content_fingerprint L w msg)\<rparr>;
               (s3, v4) = create_message_channel_record w msg (Some cid) s1 v3
           in (s3, message_processed v4 \<or> saved_any v4, types_saved_of v4))"
proof -
  from dup_vars [OF assms, of "Some cid"] obtain s1 v1 where
    st: "save_text L w msg (Some cid) s initial_vars = (s1, Some v1)" and
    sm: "save_media L w msg (Some cid) s1 v1 =
            (s1, initial_vars\<lparr>message_processed := True,
                   file_hash := Some (content_fingerprint L w msg)\<rparr>)" and
    s1: "s1 = s\<lparr>files := files s @
                   (if truthy_str (tg_text msg)
                    then [(text_path (w_stamp_text w) s, the (tg_text msg))] else [])\<rparr>"
    by blast
  show ?thesis
    unfolding s1 [symmetric] by (simp add: save_telethon_message_def st sm)
qed

section \<open>More effects, and the concrete scenarios evaluated\<close>

lemma create_record_frame:
  "content_tables (db (fst (create_message_channel_record w msg cid s v))) = content_tables (db s)"
  "links (db (fst (create_message_channel_record w msg cid s v))) = links (db s)"
  "channels (db (fst (create_message_channel_record w msg cid s v))) = channels (db s)"
  "processed_content (fst (create_message_channel_record w msg cid s v)) = processed_content s"
  "files (fst (create_message_channel_record w msg cid s v)) = files s"
  "monitored_channels (fst (create_message_channel_record w msg cid s v)) = monitored_channels s"
  "db_pool (fst (create_message_channel_record w msg cid s v)) = db_pool s"
  "tg_client (fst (create_message_channel_record w msg cid s v)) = tg_client s"
  by (simp_all add: create_message_channel_record_def Let_def insert_message_channel_def
      split: prod.splits)

lemma create_record_vars:
  "snd (create_message_channel_record w msg cid s v) = v \<or>
   snd (create_message_channel_record w msg cid s v) = v\<lparr>saved_any := True\<rparr>"
  by (simp add: create_message_channel_record_def Let_def split: prod.splits)

lemma types_saved_of_saved_any [simp]: "types_saved_of (v\<lparr>saved_any := b\<rparr>) = types_saved_of v"
  by (simp add: types_saved_of_def)

lemma types_saved_of_dup [simp]:
  "types_saved_of (initial_vars\<lparr>message_processed := True, file_hash := h\<rparr>) = []"
  by (simp add: types_saved_of_def initial_vars_def truthy_id_def)

lemma untouched_refl: "untouched s s"
  by (simp add: untouched_def)

lemma untouched_files: "untouched s (s\<lparr>files := f\<rparr>)"
  by (simp add: untouched_def)

lemma untouched_record: "untouched s s' \<Longrightarrow> untouched s (record_processed h p s')"
  by (simp add: untouched_def record_processed_def)

lemma untouched_insert_content:
  "untouched s s' \<Longrightarrow> db s' = d \<Longrightarrow> insert_content ct l n d = (d1, r) \<Longrightarrow>
     untouched s (s'\<lparr>db := d1\<rparr>)"
  by (auto simp: untouched_def insert_content_def Let_def split: if_splits)

lemma untouched_upsert_link:
  "untouched s s' \<Longrightarrow> message_channel d = message_channel (db s') \<Longrightarrow>
   message_channel_seq d = message_channel_seq (db s') \<Longrightarrow> channels d = channels (db s') \<Longrightarrow>
   upsert_link u dm d = (d1, r) \<Longrightarrow> untouched s (s'\<lparr>db := d1\<rparr>)"
  by (auto simp: untouched_def upsert_link_def Let_def split: if_splits option.splits)

lemma save_media_skip:
  assumes "tg_media msg" "\<not> tg_client s \<or> \<not> truthy_str (w_download w)"
  shows "save_media L w msg cid s v = (s, v\<lparr>message_processed := True\<rparr>)"
proof (cases "tg_client s")
  case False
  with assms(1) show ?thesis by (simp add: save_media_def Let_def)
next
  case True
  with assms(2) have "w_download w = None \<or> w_download w = Some []"
    by (cases "w_download w") (simp_all add: truthy_str_def)
  then show ?thesis
  proof
    assume "w_download w = None"
    with assms(1) True show ?thesis by (simp add: save_media_def Let_def)
  next
    assume "w_download w = Some []"
    with assms(1) True show ?thesis by (simp add: save_media_def Let_def)
  qed
qed

lemma save_media_write_fail:
  assumes "tg_media msg" "tg_client s" "w_download w = Some data" "data \<noteq> []"
    "\<not> is_duplicate (md5_hexdigest L data) s" "\<not> w_write_media w"
  shows "save_media L w msg cid s v =
     (s, v\<lparr>message_processed := True, file_hash := Some (md5_hexdigest L data)\<rparr>)"
  using assms by (simp add: save_media_def Let_def save_file_locally_fail truthy_str_def)

lemma save_media_new:
  assumes "tg_media msg" "tg_client s" "w_download w = Some data" "data \<noteq> []"
    "\<not> is_duplicate (md5_hexdigest L data) s" "w_write_media w"
  shows "save_media L w msg cid s v =
     (let h = md5_hexdigest L data;
          ct = infer_content_type msg;
          p = media_path msg (w_stamp_media w) s;
          s1 = s\<lparr>files := files s @ [(p, data)]\<rparr>;
          v2 = v\<lparr>message_processed := True, file_hash := Some h\<rparr>
      in if db_pool s \<and> truthy_id cid
         then (case insert_content ct p
                      (if ct = Document
                       then Some (generate_filename None ct (w_stamp_media w)) else None) (db s) of
                 (d1, None) \<Rightarrow> (s1\<lparr>db := d1\<rparr>, v2)
               | (d1, Some media_id) \<Rightarrow>
                   (record_processed h p (s1\<lparr>db := d1\<rparr>),
                    (set_media_id ct media_id v2)\<lparr>saved_any := True\<rparr>))
         else (record_processed h p s1, v2\<lparr>saved_any := True\<rparr>))"
  using assms
  by (simp add: save_media_def Let_def save_file_locally_ok truthy_str_def media_path_def
      path_join_nonempty generate_filename_nonempty)

lemma save_media_untouched: "untouched s (fst (save_media L w msg cid s v))"
proof (cases "tg_media msg")
  case False
  then show ?thesis by (simp add: save_media_none untouched_refl)
next
  case m: True
  show ?thesis
  proof (cases "\<not> tg_client s \<or> \<not> truthy_str (w_download w)")
    case True
    then show ?thesis by (simp add: save_media_skip [OF m] untouched_refl)
  next
    case False
    then obtain data where dl: "w_download w = Some data" "data \<noteq> []" and cl: "tg_client s"
      by (auto simp: truthy_str_def split: option.splits)
    show ?thesis
    proof (cases "is_duplicate (md5_hexdigest L data) s")
      case True
      then show ?thesis by (simp add: save_media_dup [OF m cl dl] untouched_refl)
    next
      case nd: False
      show ?thesis
      proof (cases "w_write_media w")
        case False
        then show ?thesis by (simp add: save_media_write_fail [OF m cl dl nd] untouched_refl)
      next
        case True
        show ?thesis
          unfolding save_media_new [OF m cl dl nd True] Let_def
          by (auto split: prod.splits option.splits
              intro!: untouched_record untouched_files untouched_insert_content [OF untouched_files])
      qed
    qed
  qed
qed

lemma save_text_write_fail:
  assumes "tg_text msg = Some t" "t \<noteq> []" "\<not> w_write_text w"
  shows "save_text L w msg cid s v = (s, Some (v\<lparr>message_processed := True\<rparr>))"
  using assms by (simp add: save_text_def truthy_str_def Let_def save_file_locally_fail)

lemma save_text_new:
  assumes "tg_text msg = Some t" "t \<noteq> []" "w_write_text w"
    "\<not> is_duplicate (md5_hexdigest L t) s"
  shows "save_text L w msg cid s v =
     (let h = md5_hexdigest L t;
          p = text_path (w_stamp_text w) s;
          s1 = s\<lparr>files := files s @ [(p, t)]\<rparr>;
          v2 = v\<lparr>message_processed := True, file_hash := Some h\<rparr>
      in if db_pool s \<and> truthy_id cid
         then (case insert_content Text t None (db s) of
                 (d1, None) \<Rightarrow> (s1\<lparr>db := d1\<rparr>, None)
               | (d1, Some tid) \<Rightarrow>
                   (case extract_links L t of
                      [] \<Rightarrow> (record_processed h p (s1\<lparr>db := d1\<rparr>),
                             Some (v2\<lparr>text_id := Some tid, saved_any := True\<rparr>))
                    | link_data # _ \<Rightarrow>
                        (case upsert_link (fst link_data) (snd link_data) d1 of
                           (d2, None) \<Rightarrow> (s1\<lparr>db := d2\<rparr>, None)
                         | (d2, Some lid) \<Rightarrow>
                             (record_processed h p (s1\<lparr>db := d2\<rparr>),
                              Some (v2\<lparr>text_id := Some tid, link_id := Some lid,
                                       saved_any := True\<rparr>)))))
         else (record_processed h p s1, Some (v2\<lparr>saved_any := True\<rparr>)))"
  using assms
  by (simp add: save_text_def Let_def save_file_locally_ok truthy_str_def text_path_def
      path_join_nonempty generate_filename_nonempty is_duplicate_def
      cong: option.case_cong list.case_cong prod.case_cong)

lemma save_text_untouched: "untouched s (fst (save_text L w msg cid s v))"
proof (cases "truthy_str (tg_text msg)")
  case False
  then show ?thesis by (simp add: save_text_none untouched_refl)
next
  case True
  then obtain t where t: "tg_text msg = Some t" "t \<noteq> []"
    by (auto simp: truthy_str_def split: option.splits)
  show ?thesis
  proof (cases "w_write_text w")
    case False
    then show ?thesis by (simp add: save_text_write_fail [OF t] untouched_refl)
  next
    case wr: True
    show ?thesis
    proof (cases "is_duplicate (md5_hexdigest L t) s")
      case True
      then show ?thesis by (simp add: save_text_dup [OF t] wr untouched_files)
    next
      case False
      have ins: "\<And>d1 r. insert_content Text t None (db s) = (d1, r) \<Longrightarrow>
                  message_channel d1 = message_channel (db s) \<and>
                  message_channel_seq d1 = message_channel_seq (db s) \<and>
                  channels d1 = channels (db s)"
        by (auto simp: insert_content_def Let_def)
      have ups: "\<And>u dm d d2 r. upsert_link u dm d = (d2, r) \<Longrightarrow>
                  message_channel d2 = message_channel d \<and>
                  message_channel_seq d2 = message_channel_seq d \<and>
                  channels d2 = channels d"
        by (auto simp: upsert_link_def Let_def split: if_splits option.splits)
      show ?thesis
        unfolding save_text_new [OF t wr False] Let_def
        by (auto split: prod.splits option.splits list.splits dest!: ins ups
            simp: untouched_def record_processed_def)
    qed
  qed
qed

lemmas save_defs = save_telethon_message_def save_text_def save_media_def
  create_message_channel_record_def types_saved_of_def initial_vars_def truthy_id_def
  truthy_str_def is_duplicate_def record_processed_def generate_filename_def path_join_def
  save_file_locally_def normalize_datetime_def insert_content_def upsert_link_def
  select_channel_id_def select_existing_def insert_message_channel_def hash_taken_def
  infer_content_type_def set_media_id_def Let_def

lemmas link_defs = extract_links_def match_at_def match_body_def url_char_def netloc_of_def

lemmas example_defs = example_db_def example_bot_def
  example_world_def text_message_def empty_message_def photo_message_def

lemma example_lib_simps:
  "md5_hexdigest example_lib t = t" "urlparse_netloc example_lib = netloc_of"
  by (simp_all add: example_lib_def example_digest_def)

lemma extract_example:
  "extract_links example_lib ''hello https://a.com/x'' = [(''https://a.com/x'', ''a.com'')]"
  by (simp add: link_defs example_lib_simps Let_def)

lemma after_101_mc:
  "message_channel (db after_101) =
     [\<lparr>mc_message_id = 1, mc_channel_id = 1,
       mc_creation_time = \<lparr>instant = 1700000000, tzinfo = None\<rparr>, mc_text_id = Some 1,
       mc_photo_id = None, mc_video_id = None, mc_audio_id = None, mc_document_id = None,
       mc_sticker_id = None, mc_animation_id = None, mc_link_id = Some 1,
       mc_telegram_message_id = 101, mc_file_hash = Some ''hello https://a.com/x''\<rparr>]"
  by (simp add: after_101_def save_defs extract_example example_defs example_lib_simps)


lemma after_101_dup:
  "is_duplicate ''hello https://a.com/x'' after_101"
  by (simp add: after_101_def save_defs extract_example example_defs example_lib_simps)

lemma after_102_mc:
  "map mc_telegram_message_id (message_channel (db after_102)) = [101]"
  by (simp add: after_102_def after_101_def save_defs extract_example example_defs example_lib_simps)

lemma after_102_files:
  "map snd (files after_102) = [''hello https://a.com/x'', ''hello https://a.com/x'']"
  by (simp add: after_102_def after_101_def save_defs extract_example example_defs example_lib_simps)

lemma after_101_frame:
  "db_pool after_101" "tg_client after_101" "channels (db after_101) = channels example_db"
  by (simp_all add: after_101_def save_defs extract_example example_defs example_lib_simps)

lemma after_101_files: "map snd (files after_101) = [''hello https://a.com/x'']"
  by (simp add: after_101_def save_defs extract_example example_defs example_lib_simps)

lemma after_102_same: "message_channel (db after_102) = message_channel (db after_101)"
  by (simp add: after_102_def after_101_def save_defs extract_example example_defs
      example_lib_simps)

lemma after_direct_state:
  "db after_direct = example_db" "db_pool after_direct" "tg_client after_direct"
  "is_duplicate ''hello https://a.com/x'' after_direct"
  by (simp_all add: after_direct_def process_text_def example_aio_world_def save_defs
      example_defs example_lib_simps)

lemma after_direct_mc: "message_channel (db after_direct) = []"
  by (simp add: after_direct_state example_db_def)

lemma after_photo_dup:
  "is_duplicate ''hello https://a.com/x'' after_photo" "is_duplicate ''JPEGDATA'' after_photo"
  by (simp_all add: after_photo_def save_defs extract_example example_defs example_lib_simps)

lemma after_photo_client: "tg_client after_photo"
  by (simp add: after_photo_def save_defs extract_example example_defs example_lib_simps)

lemma after_direct_101_links:
  "links (db after_direct_101) = []"
  "map mc_link_id (message_channel (db after_direct_101)) = [None]"
  by (simp_all add: after_direct_101_def after_direct_def process_text_def
      example_aio_world_def save_defs example_defs example_lib_simps)

lemma after_101_links:
  "links (db after_101) =
     [\<lparr>lk_link_id = 1, lk_url = ''https://a.com/x'', lk_domain = ''a.com''\<rparr>]"
  by (simp add: after_101_def save_defs extract_example example_defs example_lib_simps)

lemma findall_example:
  "findall_from 0 ''hello https://a.com/x'' = [''https://a.com/x'']"
  by (simp add: link_defs Let_def)

lemma netloc_example: "urlparse_netloc example_lib ''https://a.com/x'' = Some ''a.com''"
  by (simp add: example_lib_simps netloc_of_def Let_def)

section \<open>The effect of the whole method on the unified records and on the links\<close>

lemma untouched_trans: "untouched s s1 \<Longrightarrow> untouched s1 s2 \<Longrightarrow> untouched s s2"
  by (simp add: untouched_def)

lemma save_media_links: "links (db (fst (save_media L w msg cid s v))) = links (db s)"
proof (cases "tg_media msg")
  case False
  then show ?thesis by (simp add: save_media_none)
next
  case m: True
  show ?thesis
  proof (cases "\<not> tg_client s \<or> \<not> truthy_str (w_download w)")
    case True
    then show ?thesis by (simp add: save_media_skip [OF m])
  next
    case False
    then obtain data where dl: "w_download w = Some data" "data \<noteq> []" and cl: "tg_client s"
      by (auto simp: truthy_str_def split: option.splits)
    show ?thesis
    proof (cases "is_duplicate (md5_hexdigest L data) s")
      case True
      then show ?thesis by (simp add: save_media_dup [OF m cl dl])
    next
      case nd: False
      show ?thesis
      proof (cases "w_write_media w")
        case False
        then show ?thesis by (simp add: save_media_write_fail [OF m cl dl nd])
      next
        case True
        have ins: "\<And>ct l n d1 r. insert_content ct l n (db s) = (d1, r) \<Longrightarrow>
                     links d1 = links (db s)"
          by (auto simp: insert_content_def Let_def split: if_splits)
        show ?thesis
          unfolding save_media_new [OF m cl dl nd True] Let_def
          by (auto split: prod.splits option.splits dest!: ins simp: record_processed_def)
      qed
    qed
  qed
qed

lemma save_blocks:
  "\<exists>s2. untouched s s2 \<and> links (db s2) = links (db (fst (save_text L w msg (Some cid) s initial_vars))) \<and>
     (fst (save_telethon_message L w msg channel_name (Some cid) s) = s2 \<or>
      (\<exists>v. fst (save_telethon_message L w msg channel_name (Some cid) s) =
             fst (create_message_channel_record w msg (Some cid) s2 v)))"
proof (cases "save_text L w msg (Some cid) s initial_vars")
  case (Pair s1 r)
  have u1: "untouched s s1"
    using save_text_untouched [of s L w msg "Some cid" initial_vars] Pair by simp
  show ?thesis
  proof (cases r)
    case None
    then have "fst (save_telethon_message L w msg channel_name (Some cid) s) = s1"
      using Pair by (simp add: save_telethon_message_def)
    moreover have "links (db s1) = links (db (fst (save_text L w msg (Some cid) s initial_vars)))"
      using Pair by simp
    ultimately show ?thesis using u1 by blast
  next
    case (Some v1)
    obtain s2 v2 where sm: "save_media L w msg (Some cid) s1 v1 = (s2, v2)"
      by (cases "save_media L w msg (Some cid) s1 v1")
    have u2: "untouched s1 s2"
      using save_media_untouched [of s1 L w msg "Some cid" v1] sm by simp
    have l2: "links (db s2) = links (db s1)"
      using save_media_links [of L w msg "Some cid" s1 v1] sm by simp
    have "fst (save_telethon_message L w msg channel_name (Some cid) s) =
             fst (create_message_channel_record w msg (Some cid) s2
                    (if \<not> message_processed v2 \<and> tg_id msg \<noteq> 0
                     then v2\<lparr>message_processed := True\<rparr> else v2))"
      by (simp add: save_telethon_message_def Pair Some sm Let_def case_prod_beta)
    then have "\<exists>v. fst (save_telethon_message L w msg channel_name (Some cid) s) =
             fst (create_message_channel_record w msg (Some cid) s2 v)"
      by blast
    moreover have "links (db s2) = links (db (fst (save_text L w msg (Some cid) s initial_vars)))"
      using l2 Pair by simp
    ultimately show ?thesis using untouched_trans [OF u1 u2] by blast
  qed
qed

lemma create_record_effect:
  "message_channel (db (fst (create_message_channel_record w msg (Some cid) s v))) =
     message_channel (db s) \<or>
   (\<not> truthy_id (select_existing (tg_id msg) cid (db s)) \<and>
    (\<exists>r. message_channel (db (fst (create_message_channel_record w msg (Some cid) s v))) =
            message_channel (db s) @ [r] \<and>
          mc_telegram_message_id r = tg_id msg \<and> mc_channel_id r = cid \<and>
          mc_message_id r \<noteq> 0))"
  by (simp add: create_message_channel_record_def Let_def insert_message_channel_def
      split: prod.splits)

lemma save_record_effect:
  "message_channel (db (fst (save_telethon_message L w msg channel_name (Some cid) s))) =
     message_channel (db s) \<or>
   (\<not> truthy_id (select_existing (tg_id msg) cid (db s)) \<and>
    (\<exists>r. message_channel (db (fst (save_telethon_message L w msg channel_name (Some cid) s))) =
            message_channel (db s) @ [r] \<and>
          mc_telegram_message_id r = tg_id msg \<and> mc_channel_id r = cid \<and>
          mc_message_id r \<noteq> 0))"
proof -
  from save_blocks [of s L w msg cid channel_name] obtain s2 where
    u: "untouched s s2" and
    d: "fst (save_telethon_message L w msg channel_name (Some cid) s) = s2 \<or>
      (\<exists>v. fst (save_telethon_message L w msg channel_name (Some cid) s) =
             fst (create_message_channel_record w msg (Some cid) s2 v))"
    by blast
  have mc: "message_channel (db s2) = message_channel (db s)"
    using u by (simp add: untouched_def)
  then have se: "select_existing (tg_id msg) cid (db s2) = select_existing (tg_id msg) cid (db s)"
    by (simp add: select_existing_def)
  from d show ?thesis
  proof
    assume "fst (save_telethon_message L w msg channel_name (Some cid) s) = s2"
    then show ?thesis using mc by simp
  next
    assume "\<exists>v. fst (save_telethon_message L w msg channel_name (Some cid) s) =
             fst (create_message_channel_record w msg (Some cid) s2 v)"
    then obtain v where e: "fst (save_telethon_message L w msg channel_name (Some cid) s) =
             fst (create_message_channel_record w msg (Some cid) s2 v)" by blast
    show ?thesis using create_record_effect [of w msg cid s2 v]
      unfolding e mc se by blast
  qed
qed

lemma key_rows_append:
  "message_channel d' = message_channel d @ [r] \<Longrightarrow>
   key_rows i c d' = key_rows i c d @
     (if mc_telegram_message_id r = i \<and> mc_channel_id r = c then [r] else [])"
  by (simp add: key_rows_def)

lemma key_rows_same:
  "message_channel d' = message_channel d \<Longrightarrow> key_rows i c d' = key_rows i c d"
  by (simp add: key_rows_def)

lemma find_filter_empty: "filter P xs = [] \<Longrightarrow> find P (xs @ [r]) = (if P r then Some r else None)"
  by (induction xs) (auto split: if_splits)

lemma select_existing_new:
  assumes "key_rows i c d = []" "message_channel d' = message_channel d @ [r]"
    "mc_telegram_message_id r = i" "mc_channel_id r = c"
  shows "select_existing i c d' = Some (mc_message_id r)"
  using assms find_filter_empty [of "\<lambda>r. mc_telegram_message_id r = i \<and> mc_channel_id r = c"
      "message_channel d" r]
  by (simp add: select_existing_def key_rows_def)

lemma save_record_cases:
  fixes L w msg channel_name cid s
  defines "s' \<equiv> fst (save_telethon_message L w msg channel_name (Some cid) s)"
  obtains (same) "message_channel (db s') = message_channel (db s)"
  | (new) r where "\<not> truthy_id (select_existing (tg_id msg) cid (db s))"
      "message_channel (db s') = message_channel (db s) @ [r]"
      "mc_telegram_message_id r = tg_id msg" "mc_channel_id r = cid" "mc_message_id r \<noteq> 0"
  using save_record_effect [of L w msg channel_name cid s] unfolding s'_def by blast

lemma save_links:
  "links (db (fst (save_telethon_message L w msg channel_name (Some cid) s))) =
   links (db (fst (save_text L w msg (Some cid) s initial_vars)))"
proof -
  from save_blocks [of s L w msg cid channel_name] obtain s2 where
    l: "links (db s2) = links (db (fst (save_text L w msg (Some cid) s initial_vars)))" and
    d: "fst (save_telethon_message L w msg channel_name (Some cid) s) = s2 \<or>
      (\<exists>v. fst (save_telethon_message L w msg channel_name (Some cid) s) =
             fst (create_message_channel_record w msg (Some cid) s2 v))"
    by blast
  from d show ?thesis
  proof
    assume "fst (save_telethon_message L w msg channel_name (Some cid) s) = s2"
    then show ?thesis using l by simp
  next
    assume "\<exists>v. fst (save_telethon_message L w msg channel_name (Some cid) s) =
             fst (create_message_channel_record w msg (Some cid) s2 v)"
    then obtain v where "fst (save_telethon_message L w msg channel_name (Some cid) s) =
             fst (create_message_channel_record w msg (Some cid) s2 v)" by blast
    then show ?thesis using l by (simp add: create_record_frame)
  qed
qed

lemma match_at_length: "match_at s = Some u \<Longrightarrow> 3 < length u"
  by (auto simp: match_at_def match_body_def Let_def split: option.splits if_splits)

lemma findall_from_length: "u \<in> set (findall_from k t) \<Longrightarrow> 3 < length u"
proof (induction k t rule: findall_from.induct)
  case (1 k)
  then show ?case by simp
next
  case (2 k c cs)
  then show ?case by simp
next
  case (3 c cs)
  then show ?case by (auto split: option.splits dest: match_at_length)
qed

lemma findall_nonempty: "findall_from k t = u # us \<Longrightarrow> t \<noteq> []"
  by (cases t) simp_all

lemma extract_links_first:
  assumes "findall_from 0 t = u # us" "urlparse_netloc L u = Some d"
  shows "\<exists>rest. extract_links L t = (u, d) # rest"
  using assms findall_nonempty [OF assms(1)] by (simp add: extract_links_def)

lemma insert_text_result:
  "\<exists>d1 tid. insert_content Text t None d = (d1, Some tid) \<and> links d1 = links d \<and>
     links_seq d1 = links_seq d"
  by (simp add: insert_content_def Let_def)

lemma find_SomeD: "find P xs = Some x \<Longrightarrow> x \<in> set xs \<and> P x"
  by (induction xs) (auto split: if_splits)

lemma upsert_link_result:
  assumes "length u \<le> 500" "length dm \<le> 100" "3 < length u"
  shows "\<exists>d2 lid. upsert_link u dm d = (d2, Some lid) \<and>
     links d2 = (if \<exists>r \<in> set (links d). lk_url r = u then links d
                 else links d @ [\<lparr>lk_link_id = Suc (links_seq d), lk_url = u, lk_domain = dm\<rparr>])"
proof (cases "find (\<lambda>r. lk_url r = u) (links d)")
  case None
  then have n: "\<not> (\<exists>r \<in> set (links d). lk_url r = u)" by (simp add: find_None_iff)
  have "upsert_link u dm d =
      (d\<lparr>links_seq := Suc (links_seq d),
         links := links d @ [\<lparr>lk_link_id = Suc (links_seq d), lk_url = u, lk_domain = dm\<rparr>]\<rparr>,
       Some (Suc (links_seq d)))"
    using assms None by (simp add: upsert_link_def Let_def)
  then show ?thesis using n by simp
next
  case (Some r)
  then have e: "\<exists>r \<in> set (links d). lk_url r = u"
    using find_SomeD [OF Some] by blast
  have "upsert_link u dm d = (d\<lparr>links_seq := Suc (links_seq d)\<rparr>, Some (lk_link_id r))"
    using assms Some by (simp add: upsert_link_def Let_def)
  then show ?thesis using e by simp
qed

section \<open>Effects of the monitor loop and of the channel operations\<close>

lemma save_blocks_any:
  "\<exists>s2. untouched s s2 \<and>
     (fst (save_telethon_message L w msg channel_name channel_id s) = s2 \<or>
      (\<exists>v ci. fst (save_telethon_message L w msg channel_name channel_id s) =
             fst (create_message_channel_record w msg ci s2 v)))"
proof -
  define ci where "ci = (if channel_id = None \<and> db_pool s \<and> truthy_str channel_name
             then select_channel_id (the channel_name) (db s) else channel_id)"
  show ?thesis
  proof (cases "save_text L w msg ci s initial_vars")
    case (Pair s1 r)
    have u1: "untouched s s1"
      using save_text_untouched [of s L w msg ci initial_vars] Pair by simp
    show ?thesis
    proof (cases r)
      case None
      then have "fst (save_telethon_message L w msg channel_name channel_id s) = s1"
        using Pair by (simp add: save_telethon_message_def ci_def [symmetric])
      then show ?thesis using u1 by blast
    next
      case (Some v1)
      obtain s2 v2 where sm: "save_media L w msg ci s1 v1 = (s2, v2)"
        by (cases "save_media L w msg ci s1 v1")
      have u2: "untouched s1 s2"
        using save_media_untouched [of s1 L w msg ci v1] sm by simp
      have "fst (save_telethon_message L w msg channel_name channel_id s) =
               fst (create_message_channel_record w msg ci s2
                      (if \<not> message_processed v2 \<and> tg_id msg \<noteq> 0
                       then v2\<lparr>message_processed := True\<rparr> else v2))"
        by (simp add: save_telethon_message_def ci_def [symmetric] Pair Some sm Let_def
            case_prod_beta)
      then show ?thesis using untouched_trans [OF u1 u2] by blast
    qed
  qed
qed

lemma save_monitored:
  "monitored_channels (fst (save_telethon_message L w msg channel_name channel_id s)) =
     monitored_channels s"
  "tg_client (fst (save_telethon_message L w msg channel_name channel_id s)) = tg_client s"
proof -
  from save_blocks_any [of s L w msg channel_name channel_id] obtain s2 where
    u: "untouched s s2" and
    d: "fst (save_telethon_message L w msg channel_name channel_id s) = s2 \<or>
      (\<exists>v ci. fst (save_telethon_message L w msg channel_name channel_id s) =
             fst (create_message_channel_record w msg ci s2 v))"
    by blast
  have m: "monitored_channels s2 = monitored_channels s" "tg_client s2 = tg_client s"
    using u by (simp_all add: untouched_def)
  from d show "monitored_channels (fst (save_telethon_message L w msg channel_name channel_id s)) =
     monitored_channels s"
    using m by (auto simp: create_record_frame)
  from d show "tg_client (fst (save_telethon_message L w msg channel_name channel_id s)) = tg_client s"
    using m by (auto simp: create_record_frame)
qed

lemma monitor_message_step:
  assumes "monitored_channels s channel = Some meta"
  shows "\<exists>s1 n1 c1. monitor_message L channel msg w (s, n, c) = (s1, n1, c1) \<and>
     tg_client s1 = tg_client s \<and>
     monitored_channels s1 =
       (monitored_channels s)(channel \<mapsto> meta\<lparr>last_id :=
          (if message_success L channel msg w s \<and> tg_id msg \<noteq> 0 \<and> tg_id msg > last_id meta
           then tg_id msg else last_id meta)\<rparr>)"
proof -
  obtain s1 success types_saved where
    sv: "save_telethon_message L w msg (Some channel) (meta_channel_id meta) s =
           (s1, success, types_saved)"
    by (cases "save_telethon_message L w msg (Some channel) (meta_channel_id meta) s") auto
  have m1: "monitored_channels s1 = monitored_channels s" and c1: "tg_client s1 = tg_client s"
    using save_monitored [of L w msg "Some channel" "meta_channel_id meta" s] sv by simp_all
  have su: "message_success L channel msg w s = success"
    using assms sv by (simp add: message_success_def)
  have id: "(monitored_channels s)(channel \<mapsto> meta) = monitored_channels s"
    using assms by (simp add: fun_upd_idem_iff)
  show ?thesis
    using assms sv m1 c1 su id
    by (auto simp: monitor_message_def Let_def)
qed

lemma monitor_message_fst:
  "fst (monitor_message L channel msg w (s, n, c)) =
   fst (monitor_message L channel msg w (s, n', c'))"
  by (simp add: monitor_message_def Let_def split: option.splits prod.splits)

lemma monitor_messages_cursor:
  assumes "monitored_channels s channel = Some meta" "0 \<le> last_id meta"
  shows "\<exists>meta'. monitored_channels (fst (monitor_messages L channel batch (s, n, c))) channel
            = Some meta' \<and>
          last_id meta' = fold max (processed_ids L channel batch s) (last_id meta)"
  using assms
proof (induction batch arbitrary: s meta n c)
  case Nil
  then show ?case by simp
next
  case (Cons mw rest)
  define l1 where "l1 = (if message_success L channel (fst mw) (snd mw) s \<and> tg_id (fst mw) \<noteq> 0 \<and>
                             tg_id (fst mw) > last_id meta
                          then tg_id (fst mw) else last_id meta)"
  from monitor_message_step [OF Cons.prems(1), of L "fst mw" "snd mw" n c]
  obtain s1 n1 c1 where
    st: "monitor_message L channel (fst mw) (snd mw) (s, n, c) = (s1, n1, c1)" and
    m1: "monitored_channels s1 = (monitored_channels s)(channel \<mapsto> meta\<lparr>last_id := l1\<rparr>)"
    unfolding l1_def by blast
  have m1': "monitored_channels s1 channel = Some (meta\<lparr>last_id := l1\<rparr>)"
    using m1 by simp
  have pos: "0 \<le> last_id (meta\<lparr>last_id := l1\<rparr>)"
    using Cons.prems(2) by (simp add: l1_def)
  have s1': "fst (monitor_message L channel (fst mw) (snd mw) (s, 0, \<lambda>_. 0)) = s1"
    using monitor_message_fst [of L channel "fst mw" "snd mw" s 0 "\<lambda>_. 0" n c] st by simp
  from Cons.IH [OF m1' pos, of n1 c1] obtain meta' where
    r: "monitored_channels (fst (monitor_messages L channel rest (s1, n1, c1))) channel
            = Some meta'"
       "last_id meta' = fold max (processed_ids L channel rest s1) l1"
    by auto
  have "fold max (processed_ids L channel (mw # rest) s) (last_id meta) =
        fold max (processed_ids L channel rest s1) l1"
    using Cons.prems(2) by (auto simp: s1' l1_def max_def)
  then show ?case using r st by simp
qed

lemma monitor_channel_batch:
  "monitor_channel L channel entity s =
     monitor_messages L channel (cycle_batch channel entity s) (s, 0, \<lambda>_. 0)"
  by (simp add: monitor_channel_def cycle_batch_def split: option.splits)

lemma fold_max_ge: "(l::int) \<le> fold max xs l"
proof (induction xs arbitrary: l)
  case Nil
  then show ?case by simp
next
  case (Cons x xs)
  have "l \<le> max x l" by simp
  also have "\<dots> \<le> fold max xs (max x l)" by (rule Cons.IH)
  finally show ?case by simp
qed

lemma monitor_messages_mono:
  assumes "monitored_channels s channel = Some meta"
  shows "\<exists>meta'. monitored_channels (fst (monitor_messages L channel batch (s, n, c))) channel
            = Some meta' \<and> last_id meta \<le> last_id meta' \<and>
          tg_client (fst (monitor_messages L channel batch (s, n, c))) = tg_client s"
  using assms
proof (induction batch arbitrary: s meta n c)
  case Nil
  then show ?case by simp
next
  case (Cons mw rest)
  define l1 where "l1 = (if message_success L channel (fst mw) (snd mw) s \<and> tg_id (fst mw) \<noteq> 0 \<and>
                             tg_id (fst mw) > last_id meta
                          then tg_id (fst mw) else last_id meta)"
  from monitor_message_step [OF Cons.prems(1), of L "fst mw" "snd mw" n c]
  obtain s1 n1 c1 where
    st: "monitor_message L channel (fst mw) (snd mw) (s, n, c) = (s1, n1, c1)" and
    c: "tg_client s1 = tg_client s" and
    m1: "monitored_channels s1 = (monitored_channels s)(channel \<mapsto> meta\<lparr>last_id := l1\<rparr>)"
    unfolding l1_def by blast
  have l1: "last_id meta \<le> l1" by (simp add: l1_def)
  have m1': "monitored_channels s1 channel = Some (meta\<lparr>last_id := l1\<rparr>)"
    using m1 by simp
  from Cons.IH [OF m1', of n1 c1] obtain meta' where
    "monitored_channels (fst (monitor_messages L channel rest (s1, n1, c1))) channel = Some meta'"
    "l1 \<le> last_id meta'"
    "tg_client (fst (monitor_messages L channel rest (s1, n1, c1))) = tg_client s1"
    by auto
  then show ?case using st l1 c by auto
qed

lemma cycle_batch_above:
  assumes "monitored_channels s channel = Some meta"
  shows "\<forall>mw \<in> set (cycle_batch channel entity s). last_id meta < tg_id (fst mw)"
  using assms by (auto simp: cycle_batch_def iter_messages_def split: option.splits)

lemma iterated_ids_above:
  assumes "monitored_channels s channel = Some meta" "c0 \<le> last_id meta"
  shows "\<forall>i \<in> set (iterated_ids L channel entities s). c0 < i"
  using assms
proof (induction entities arbitrary: s meta)
  case Nil
  then show ?case by simp
next
  case (Cons entity entities)
  from monitor_messages_mono [OF Cons.prems(1), of L "cycle_batch channel entity s" 0 "\<lambda>_. 0"]
  obtain meta' where
    m: "monitored_channels (fst (monitor_channel L channel entity s)) channel = Some meta'"
    and l: "last_id meta \<le> last_id meta'"
    by (auto simp: monitor_channel_batch)
  have "c0 \<le> last_id meta'" using l Cons.prems(2) by simp
  from Cons.IH [OF m this]
  have rest: "\<forall>i \<in> set (iterated_ids L channel entities
                         (fst (monitor_channel L channel entity s))). c0 < i" .
  have "\<forall>mw \<in> set (cycle_batch channel entity s). c0 < tg_id (fst mw)"
    using cycle_batch_above [OF Cons.prems(1), of entity] Cons.prems(2) by auto
  then show ?case using rest by auto
qed

lemma add_channel_cursor:
  assumes "add_channel channel added_by (Some (title, history)) s = (s1, True)"
  shows "\<exists>cid. monitored_channels s1 channel =
           Some \<lparr>is_active = True, last_id = latest_id history, meta_channel_id = Some cid\<rparr>"
proof -
  have cl: "tg_client s" and pool: "db_pool s"
    using assms by (auto simp: add_channel_def Let_def split: if_splits)
  show ?thesis
  proof (cases "select_channel_id channel (db s)")
    case (Some cid)
    then show ?thesis using assms cl pool
      by (auto simp: add_channel_def Let_def latest_id_def)
  next
    case None
    obtain d1 r where ins: "insert_channel channel title True added_by (latest_id history) (db s)
        = (d1, r)"
      by (cases "insert_channel channel title True added_by (latest_id history) (db s)")
    show ?thesis
    proof (cases r)
      case None
      then show ?thesis using assms cl pool \<open>select_channel_id channel (db s) = None\<close> ins
        by (simp add: add_channel_def Let_def latest_id_def)
    next
      case (Some cid)
      then show ?thesis using assms cl pool \<open>select_channel_id channel (db s) = None\<close> ins
        by (auto simp: add_channel_def Let_def latest_id_def)
    qed
  qed
qed

lemma newest_first_le:
  assumes "sorted_wrt (>) (map tg_id history)" "m \<in> set history"
  shows "tg_id m \<le> latest_id history"
  using assms by (cases history) (auto simp: latest_id_def)

lemma stop_channel_shape:
  assumes "stop_channel channel s = (s1, True)"
  shows "s1 = (let s0 = (if db_pool s then s\<lparr>db := deactivate_channel channel (db s)\<rparr> else s)
               in case monitored_channels s channel of
                    None \<Rightarrow> s0
                  | Some meta \<Rightarrow> s0\<lparr>monitored_channels :=
                        (monitored_channels s)(channel \<mapsto> meta\<lparr>is_active := False\<rparr>)\<rparr>)"
proof -
  have nz: "\<not> (db_pool s \<and> filter (\<lambda>r. ch_tag_channel r = channel) (channels (db s)) = [])"
  proof
    assume "db_pool s \<and> filter (\<lambda>r. ch_tag_channel r = channel) (channels (db s)) = []"
    then have "stop_channel channel s = (s, False)" by (simp add: stop_channel_def)
    with assms show False by simp
  qed
  show ?thesis
  proof (cases "db_pool s")
    case True
    with nz assms show ?thesis
      by (cases "monitored_channels s channel") (simp_all add: stop_channel_def Let_def)
  next
    case False
    with assms show ?thesis
      by (cases "monitored_channels s channel") (simp_all add: stop_channel_def Let_def)
  qed
qed

lemma deactivate_cursor:
  "map ch_last_message_id (channels (deactivate_channel tag d)) =
   map ch_last_message_id (channels d)"
  by (induction "channels d") (simp_all add: deactivate_channel_def)

lemma deactivate_rows:
  "list_all (\<lambda>r. ch_tag_channel r = tag \<longrightarrow> \<not> ch_is_active r)
     (map (\<lambda>r. if ch_tag_channel r = tag then r\<lparr>ch_is_active := False\<rparr> else r) xs)"
  by (induction xs) simp_all

lemma deactivate_inactive:
  "\<forall>r \<in> set (channels (deactivate_channel tag d)).
     ch_tag_channel r = tag \<longrightarrow> \<not> ch_is_active r"
proof -
  have "channels (deactivate_channel tag d) =
          map (\<lambda>r. if ch_tag_channel r = tag then r\<lparr>ch_is_active := False\<rparr> else r) (channels d)"
    by (simp add: deactivate_channel_def)
  then show ?thesis
    using deactivate_rows [of tag "channels d"] unfolding list_all_iff by (simp only:)
qed

lemma reactivate_rows:
  "list_all (\<lambda>r. ch_tag_channel r = tag \<longrightarrow> ch_last_message_id r = l \<and> ch_is_active r)
     (map (\<lambda>r. if ch_tag_channel r = tag
               then r\<lparr>ch_is_active := True, ch_added_by := a, ch_last_message_id := l\<rparr>
               else r) xs)"
  by (induction xs) simp_all

lemma reactivate_active:
  "\<forall>r \<in> set (channels (reactivate_channel tag a l d)).
     ch_tag_channel r = tag \<longrightarrow> ch_last_message_id r = l \<and> ch_is_active r"
proof -
  have "channels (reactivate_channel tag a l d) =
          map (\<lambda>r. if ch_tag_channel r = tag
               then r\<lparr>ch_is_active := True, ch_added_by := a, ch_last_message_id := l\<rparr>
               else r) (channels d)"
    by (simp add: reactivate_channel_def)
  then show ?thesis
    using reactivate_rows [of tag l a "channels d"] unfolding list_all_iff by (simp only:)
qed

lemma stop_channel_effect:
  assumes "stop_channel channel s = (s1, True)"
  shows "map ch_last_message_id (channels (db s1)) = map ch_last_message_id (channels (db s))"
    and "db_pool s \<Longrightarrow>
           \<forall>r \<in> set (channels (db s1)). ch_tag_channel r = channel \<longrightarrow> \<not> ch_is_active r"
    and "cursor s1 channel = cursor s channel"
    and "\<forall>meta. monitored_channels s1 channel = Some meta \<longrightarrow> \<not> is_active meta"
proof -
  note sh = stop_channel_shape [OF assms]
  have d: "db s1 = (if db_pool s then deactivate_channel channel (db s) else db s)"
    by (cases "monitored_channels s channel"; cases "db_pool s") (simp_all add: sh)
  show "map ch_last_message_id (channels (db s1)) = map ch_last_message_id (channels (db s))"
    by (simp add: d deactivate_cursor)
  show "\<forall>r \<in> set (channels (db s1)). ch_tag_channel r = channel \<longrightarrow> \<not> ch_is_active r"
    if "db_pool s"
  proof -
    have "db s1 = deactivate_channel channel (db s)" using that d by simp
    then show ?thesis using deactivate_inactive [of channel "db s"] by (simp only:)
  qed
  have m: "monitored_channels s1 channel =
             map_option (\<lambda>meta. meta\<lparr>is_active := False\<rparr>) (monitored_channels s channel)"
    by (cases "monitored_channels s channel"; cases "db_pool s") (simp_all add: sh)
  show "cursor s1 channel = cursor s channel"
    by (cases "monitored_channels s channel") (simp_all add: cursor_def m)
  show "\<forall>meta. monitored_channels s1 channel = Some meta \<longrightarrow> \<not> is_active meta"
    by (cases "monitored_channels s channel") (simp_all add: m)
qed

lemma select_channel_id_None:
  "select_channel_id tag d = None \<Longrightarrow> \<forall>r \<in> set (channels d). ch_tag_channel r \<noteq> tag"
  by (simp add: select_channel_id_def find_None_iff)

lemma add_channel_rows:
  assumes "add_channel channel added_by (Some (title, history)) s = (s1, True)"
  shows "\<forall>r \<in> set (channels (db s1)). ch_tag_channel r = channel \<longrightarrow>
           ch_last_message_id r = latest_id history \<and> ch_is_active r"
proof -
  have cl: "tg_client s" and pool: "db_pool s"
    using assms by (auto simp: add_channel_def Let_def split: if_splits)
  show ?thesis
  proof (cases "select_channel_id channel (db s)")
    case (Some cid)
    then have "db s1 = reactivate_channel channel added_by (latest_id history) (db s)"
      using assms cl pool by (auto simp: add_channel_def Let_def latest_id_def)
    then show ?thesis
      using reactivate_active [of channel added_by "latest_id history" "db s"] by (simp only:)
  next
    case None
    note n = select_channel_id_None [OF None]
    obtain d1 r where ins: "insert_channel channel title True added_by (latest_id history) (db s)
        = (d1, r)"
      by (cases "insert_channel channel title True added_by (latest_id history) (db s)")
    show ?thesis
    proof (cases r)
      case None
      then show ?thesis using assms cl pool \<open>select_channel_id channel (db s) = None\<close> ins
        by (simp add: add_channel_def Let_def latest_id_def)
    next
      case (Some cid)
      then have "db s1 = d1"
        using assms cl pool \<open>select_channel_id channel (db s) = None\<close> ins
        by (auto simp: add_channel_def Let_def latest_id_def)
      moreover have "channels d1 = channels (db s) @
          [\<lparr>ch_channel_id = Suc (channel_seq (db s)), ch_tag_channel = channel,
            ch_name_channel = title, ch_is_active = True, ch_added_by = added_by,
            ch_last_message_id = latest_id history\<rparr>]"
        using ins [symmetric] Some
        by (cases "3 < length channel \<and> length channel \<le> 50 \<and> 3 < length title \<and>
            length title \<le> 50") (simp_all add: insert_channel_def Let_def)
      ultimately show ?thesis using n by (simp add: ball_Un)
    qed
  qed
qed

lemma out_of_order_ids:
  "processed_ids example_lib ''@chan'' (cycle_batch ''@chan'' (Some out_of_order_batch) example_bot)
     example_bot = [101, 103, 102]"
  by (simp add: cycle_batch_def iter_messages_def out_of_order_batch_def message_success_def
      monitor_message_def save_defs link_defs example_defs example_lib_simps counter_update_def
      update_last_message_id_def)

lemma registered_state:
  "snd (add_channel ''@chan'' 7
          (Some (''Chan'', [text_message 100 ''old'', text_message 99 ''older''])) fresh_bot)"
  "tg_client registered"
  "monitored_channels registered ''@chan'' =
     Some \<lparr>is_active = True, last_id = 100, meta_channel_id = Some 1\<rparr>"
  by (simp_all add: registered_def add_channel_def fresh_bot_def select_channel_id_def
      insert_channel_def example_defs Let_def)

lemma registered_batch:
  "cycle_batch ''@chan'' (Some history_101) registered =
     [(text_message 101 ''new'', example_world)]"
  by (simp add: cycle_batch_def registered_state iter_messages_def history_101_def
      text_message_def)

lemma stopped_state:
  "snd (stop_channel ''@chan'' example_bot)"
  "tg_client stopped" "db_pool stopped"
  "monitored_channels stopped ''@chan'' =
     Some \<lparr>is_active = False, last_id = 100, meta_channel_id = Some 1\<rparr>"
  "select_channel_id ''@chan'' (db stopped) = Some 1"
  by (simp_all add: stopped_def stop_channel_def deactivate_channel_def select_channel_id_def
      example_defs Let_def)

lemma reactivated_state:
  "snd (add_channel ''@chan'' 7
          (Some (''Chan'', [text_message 102 ''two'', text_message 101 ''one'',
                           text_message 100 ''old''])) stopped)"
  "tg_client reactivated"
  "monitored_channels reactivated ''@chan'' =
     Some \<lparr>is_active = True, last_id = 102, meta_channel_id = Some 1\<rparr>"
  by (simp_all add: reactivated_def add_channel_def stopped_state text_message_def Let_def)

lemma reactivated_batch: "cycle_batch ''@chan'' (Some history_102) reactivated = []"
  by (simp add: cycle_batch_def reactivated_state iter_messages_def history_102_def
      text_message_def)

section \<open>Effects of the media group handlers\<close>







subsection \<open>Lists of tasks\<close>






subsection \<open>The fragments arrive\<close>





subsection \<open>The tasks run\<close>













subsection \<open>Time\<close>










lemma arrivals_are_arrivals: "filter is_arrival (arrivals frs) = arrivals frs"
  by (induction frs) (simp_all add: arrivals_def is_arrival_def)






subsection \<open>The two photos\<close>





section \<open>When the unified record is created\<close>

lemma set_media_id_hash [simp]: "file_hash (set_media_id ct i v) = file_hash v"
  by (cases ct) (simp_all add: set_media_id_def)

lemma save_media_hash:
  assumes "save_media L w msg cid s v = (s', v')"
  shows "file_hash v' = file_hash v \<or>
         (\<exists>data. w_download w = Some data \<and> file_hash v' = Some (md5_hexdigest L data))"
proof (cases "tg_media msg")
  case False
  then show ?thesis using assms by (simp add: save_media_none)
next
  case m: True
  show ?thesis
  proof (cases "\<not> tg_client s \<or> \<not> truthy_str (w_download w)")
    case True
    then show ?thesis using assms by (auto simp: save_media_skip [OF m])
  next
    case False
    then obtain data where dl: "w_download w = Some data" "data \<noteq> []" and cl: "tg_client s"
      by (auto simp: truthy_str_def split: option.splits)
    show ?thesis
    proof (cases "is_duplicate (md5_hexdigest L data) s")
      case True
      then show ?thesis using assms dl by (auto simp: save_media_dup [OF m cl dl])
    next
      case nd: False
      show ?thesis
      proof (cases "w_write_media w")
        case False
        then show ?thesis using assms dl by (auto simp: save_media_write_fail [OF m cl dl nd])
      next
        case True
        have "file_hash (snd (save_media L w msg cid s v)) = Some (md5_hexdigest L data)"
          unfolding save_media_new [OF m cl dl nd True] Let_def
          by (simp split: prod.splits option.splits)
        then show ?thesis using assms dl by simp
      qed
    qed
  qed
qed

lemma save_text_hash:
  assumes "save_text L w msg cid s v = (s', Some v')"
  shows "file_hash v' = file_hash v \<or>
         (\<exists>t. tg_text msg = Some t \<and> file_hash v' = Some (md5_hexdigest L t))"
proof (cases "truthy_str (tg_text msg)")
  case False
  then show ?thesis using assms by (simp add: save_text_none)
next
  case True
  then obtain t where t: "tg_text msg = Some t" "t \<noteq> []"
    by (auto simp: truthy_str_def split: option.splits)
  show ?thesis
  proof (cases "w_write_text w")
    case False
    then show ?thesis using assms by (auto simp: save_text_write_fail [OF t])
  next
    case wr: True
    show ?thesis
    proof (cases "is_duplicate (md5_hexdigest L t) s")
      case True
      then show ?thesis using assms t wr by (auto simp: save_text_dup [OF t])
    next
      case False
      have "\<forall>v''. snd (save_text L w msg cid s v) = Some v'' \<longrightarrow>
              file_hash v'' = Some (md5_hexdigest L t)"
        unfolding save_text_new [OF t wr False] Let_def
        by (simp split: prod.splits option.splits list.splits)
      then show ?thesis using assms t by simp
    qed
  qed
qed

lemma extract_links_urls: "ld \<in> set (extract_links L t) \<Longrightarrow> fst ld \<in> set (findall_from 0 t)"
  by (auto simp: extract_links_def split: if_splits option.splits)

lemma save_text_returns:
  assumes "links_fit L msg"
  shows "snd (save_text L w msg cid s v) \<noteq> None"
proof (cases "truthy_str (tg_text msg)")
  case False
  then show ?thesis by (simp add: save_text_none)
next
  case True
  then obtain t where t: "tg_text msg = Some t" "t \<noteq> []"
    by (auto simp: truthy_str_def split: option.splits)
  show ?thesis
  proof (cases "w_write_text w")
    case False
    then show ?thesis by (simp add: save_text_write_fail [OF t])
  next
    case wr: True
    show ?thesis
    proof (cases "is_duplicate (md5_hexdigest L t) s")
      case True
      then show ?thesis using wr by (simp add: save_text_dup [OF t])
    next
      case nd: False
      from insert_text_result [of t "db s"] obtain d1 tid where
        ins: "insert_content Text t None (db s) = (d1, Some tid)" by blast
      show ?thesis
      proof (cases "extract_links L t")
        case Nil
        then show ?thesis
          by (simp add: save_text_new [OF t wr nd] Let_def ins)
      next
        case (Cons ld rest)
        then have lu: "length (fst ld) \<le> 500" and ldm: "length (snd ld) \<le> 100"
          using assms t by (simp_all add: links_fit_def)
        have "ld \<in> set (extract_links L t)" using Cons by simp
        then have "fst ld \<in> set (findall_from 0 t)" by (rule extract_links_urls)
        then have l3: "3 < length (fst ld)" by (rule findall_from_length)
        from upsert_link_result [OF lu ldm l3, of d1] obtain d2 lid where
          ups: "upsert_link (fst ld) (snd ld) d1 = (d2, Some lid)" by blast
        show ?thesis
          by (simp add: save_text_new [OF t wr nd] Let_def ins Cons ups)
      qed
    qed
  qed
qed

lemma create_record_inserts:
  assumes "db_pool s" "cid \<noteq> 0" "tg_id msg \<noteq> 0"
    and "key_rows (tg_id msg) cid (db s) = []"
    and "list_ex (\<lambda>c. ch_channel_id c = cid) (channels (db s))"
    and "case file_hash v of None \<Rightarrow> True | Some h \<Rightarrow> length h \<le> 64 \<and> \<not> hash_taken h (db s)"
  shows "key_rows (tg_id msg) cid (db (fst (create_message_channel_record w msg (Some cid) s v)))
           \<noteq> []"
proof -
  have ex: "select_existing (tg_id msg) cid (db s) = None"
    using assms(4) by (simp add: select_existing_def key_rows_def find_None_iff filter_empty_conv)
  have fk: "\<exists>c \<in> set (channels (db s)). ch_channel_id c = cid"
    using assms(5) by (simp add: list_ex_iff)
  obtain r where "message_channel (db (fst (create_message_channel_record w msg (Some cid) s v)))
      = message_channel (db s) @ [r]" "mc_telegram_message_id r = tg_id msg" "mc_channel_id r = cid"
    using assms(1,2,3,6) ex fk
    by (simp add: create_message_channel_record_def truthy_id_def Let_def
        insert_message_channel_def split: option.splits)
  from key_rows_append [OF this(1), of "tg_id msg" cid] this(2,3)
  show ?thesis by simp
qed

lemma save_inserts:
  assumes "insert_accepted L w msg cid s" "key_rows (tg_id msg) cid (db s) = []"
  shows "key_rows (tg_id msg) cid
           (db (fst (save_telethon_message L w msg channel_name (Some cid) s))) \<noteq> []"
proof -
  have lf: "links_fit L msg" using assms(1) by (simp add: insert_accepted_def)
  obtain s1 r where st: "save_text L w msg (Some cid) s initial_vars = (s1, r)"
    by (cases "save_text L w msg (Some cid) s initial_vars")
  with save_text_returns [OF lf, of w "Some cid" s initial_vars] obtain v1 where
    r: "r = Some v1" by auto
  obtain s2 v2 where sm: "save_media L w msg (Some cid) s1 v1 = (s2, v2)"
    by (cases "save_media L w msg (Some cid) s1 v1")
  define v3 where "v3 = (if \<not> message_processed v2 \<and> tg_id msg \<noteq> 0
                         then v2\<lparr>message_processed := True\<rparr> else v2)"
  have u1: "untouched s s1"
    using save_text_untouched [of s L w msg "Some cid" initial_vars] st by simp
  have u2: "untouched s1 s2"
    using save_media_untouched [of s1 L w msg "Some cid" v1] sm by simp
  note u = untouched_trans [OF u1 u2]
  have h1: "file_hash v1 = None \<or> (\<exists>t. tg_text msg = Some t \<and> file_hash v1 = Some (md5_hexdigest L t))"
    using save_text_hash [OF st [unfolded r]] by (simp add: initial_vars_def)
  have h2: "file_hash v2 = file_hash v1 \<or>
         (\<exists>data. w_download w = Some data \<and> file_hash v2 = Some (md5_hexdigest L data))"
    using save_media_hash [OF sm] .
  have h3: "file_hash v3 = file_hash v2" by (simp add: v3_def)
  have fp: "file_hash v3 = None \<or> (\<exists>h \<in> message_fingerprints L w msg. file_hash v3 = Some h)"
    using h1 h2 h3 by (auto simp: message_fingerprints_def)
  have mc: "message_channel (db s2) = message_channel (db s)"
    and ch: "channels (db s2) = channels (db s)" and pool: "db_pool s2 = db_pool s"
    using u by (simp_all add: untouched_def)
  have ht: "hash_taken h (db s2) = hash_taken h (db s)" for h
    by (simp add: hash_taken_def mc)
  have ok: "case file_hash v3 of None \<Rightarrow> True
            | Some h \<Rightarrow> length h \<le> 64 \<and> \<not> hash_taken h (db s2)"
    using fp assms(1) by (auto simp: insert_accepted_def ht)
  have k: "key_rows (tg_id msg) cid (db s2) = []"
    using key_rows_same [OF mc, of "tg_id msg" cid] assms(2) by simp
  have e: "fst (save_telethon_message L w msg channel_name (Some cid) s) =
        fst (create_message_channel_record w msg (Some cid) s2 v3)"
    by (simp add: save_telethon_message_def st r sm Let_def case_prod_beta v3_def)
  show ?thesis
    unfolding e
    using assms(1) by (intro create_record_inserts) (simp_all add: insert_accepted_def pool ch k ok)
qed

lemma after_102_again_mc:
  "message_channel (db after_102_again) = message_channel (db after_101)"
  by (simp add: after_102_again_def after_102_def after_101_def save_defs extract_example
      example_defs example_lib_simps)

lemma example_accepted:
  "insert_accepted example_lib example_world (text_message 101 ''hello https://a.com/x'') 1
     example_bot"
  by (simp add: insert_accepted_def links_fit_def message_fingerprints_def hash_taken_def
      extract_example example_lib_simps example_defs)

text \<open>
  A text that cannot be written has no fingerprint (\<open>if file_path:\<close> guards its
  computation), whether it was seen before or not: the record of a message with such a
  text and no media is inserted with a null \<open>file_hash\<close>.
\<close>

lemma failed_write_record:
  assumes "tg_text msg = Some t" "t \<noteq> []" "\<not> w_write_text w" "\<not> tg_media msg"
    and "tg_id msg \<noteq> 0" "db_pool s" "cid \<noteq> 0"
    and "\<exists>c \<in> set (channels (db s)). ch_channel_id c = cid"
    and "select_existing (tg_id msg) cid (db s) = None"
  shows "message_channel (db (fst (save_telethon_message L w msg channel_name (Some cid) s))) =
           message_channel (db s) @ [placeholder_row w msg cid None (db s)]"
  using assms
  by (simp add: save_telethon_message_def save_text_write_fail save_media_none initial_vars_def
      create_message_channel_record_def truthy_id_def Let_def insert_message_channel_def
      placeholder_row_def)

section \<open>Classification\<close>

text \<open>
  Claim C6. For every raw media item, also one that satisfies several kind predicates, the
  content type that \<open>_save_telethon_message\<close> infers is the first kind of the precedence
  photo > video > audio > sticker > animation whose predicate holds, and \<open>document\<close> when
  no predicate holds.
\<close>

theorem classification_precedence: "infer_content_type msg = classify_by_precedence msg"
  by (simp add: infer_content_type_def classify_by_precedence_def kind_precedence_def)

section \<open>Messages without content\<close>

text \<open>
  Claim C7. A message with neither text nor media but with a message id is reported as
  processed, reports no content type, and (with a pool, a channel id that refers to a
  row of the channel table, and no record for its key yet) gets a unified record all of
  whose content references, the link reference and the fingerprint are null.
\<close>

theorem empty_message_placeholder:
  assumes "\<not> truthy_str (tg_text msg)" "\<not> tg_media msg" "tg_id msg \<noteq> 0"
    and "db_pool s" "cid \<noteq> 0" "\<exists>c \<in> set (channels (db s)). ch_channel_id c = cid"
    and "select_existing (tg_id msg) cid (db s) = None"
  shows "case save_telethon_message L w msg channel_name (Some cid) s of
           (s', success, types_saved) \<Rightarrow>
             success \<and> types_saved = [] \<and>
             message_channel (db s') =
               message_channel (db s) @ [placeholder_row w msg cid None (db s)]"
  using assms
  by (simp add: save_telethon_message_def save_text_none save_media_none initial_vars_def
      create_message_channel_record_def truthy_id_def Let_def insert_message_channel_def
      types_saved_of_def placeholder_row_def)

theorem empty_message_placeholder_witness:
  "\<not> truthy_str (tg_text (empty_message 103)) \<and> \<not> tg_media (empty_message 103) \<and>
   tg_id (empty_message 103) \<noteq> 0 \<and> db_pool after_101 \<and> (1::nat) \<noteq> 0 \<and>
   (\<exists>c \<in> set (channels (db after_101)). ch_channel_id c = 1) \<and>
   select_existing (tg_id (empty_message 103)) 1 (db after_101) = None \<and>
   (case save_telethon_message example_lib example_world (empty_message 103) (Some ''@chan'')
          (Some 1) after_101 of
      (s', success, types_saved) \<Rightarrow>
        success \<and> types_saved = [] \<and>
        message_channel (db s') =
          message_channel (db after_101) @
            [placeholder_row example_world (empty_message 103) 1 None (db after_101)])"
proof -
  have h1: "\<not> truthy_str (tg_text (empty_message 103))"
    and h2: "\<not> tg_media (empty_message 103)"
    and h3: "tg_id (empty_message 103) \<noteq> 0"
    by (simp_all add: empty_message_def truthy_str_def)
  have h4: "db_pool after_101" and h5: "(1::nat) \<noteq> 0"
    and h6: "\<exists>c \<in> set (channels (db after_101)). ch_channel_id c = 1"
    by (simp_all add: after_101_frame example_defs)
  have h7: "select_existing (tg_id (empty_message 103)) 1 (db after_101) = None"
    by (simp add: select_existing_def after_101_mc empty_message_def)
  from empty_message_placeholder [OF h1 h2 h3 h4 h5 h6 h7,
      where L = example_lib and w = example_world and channel_name = "Some ''@chan''"]
  show ?thesis using h1 h2 h3 h4 h5 h6 h7 by blast
qed

section \<open>Duplicate content\<close>

text \<open>
  Claim C1, as the specification states it: a message whose whole content is a duplicate
  still gets a unified record of its own. In the scenario of the specification it does
  not. After message 101 the text of message 102 is a duplicate, and processing message
  102 leaves \<open>message_channel\<close> as it was, with the record of message 101 alone: the
  record of 101 already holds the fingerprint, and \<open>file_hash\<close> is \<open>UNIQUE\<close>.
\<close>

theorem duplicate_message_record_counterexample:
  "all_duplicate example_lib example_world (text_message 102 ''hello https://a.com/x'')
     after_101 \<and>
   message_channel (db after_102) = message_channel (db after_101) \<and>
   map mc_telegram_message_id (message_channel (db after_102)) = [101]"
  by (simp add: all_duplicate_def after_101_dup after_101_mc after_102_same text_message_def
      truthy_str_def example_world_def example_lib_simps)

text \<open>
  Claim C1, amended. For a message all of whose content is a duplicate, its text
  written and its media downloaded, so that its fingerprint is computed (with a message
  id, a pool, a channel id that refers to a row of the channel table, and no record for
  its key yet), a unified record without content references is appended exactly when no
  unified record holds the fingerprint of the message in \<open>file_hash\<close>; when one does, the
  \<open>UNIQUE\<close> constraint refuses the insert and \<open>message_channel\<close> stays as it is. (A text
  that cannot be written has no fingerprint, and its record is inserted with a null
  \<open>file_hash\<close>: lemma \<open>failed_write_record\<close>.)
\<close>

theorem duplicate_message_record:
  assumes dup: "all_duplicate L w msg s"
    and "tg_id msg \<noteq> 0" "db_pool s" "cid \<noteq> 0"
    and "\<exists>c \<in> set (channels (db s)). ch_channel_id c = cid"
    and "select_existing (tg_id msg) cid (db s) = None"
    and "length (content_fingerprint L w msg) \<le> 64"
  shows "message_channel (db (fst (save_telethon_message L w msg channel_name (Some cid) s))) =
           (if hash_taken (content_fingerprint L w msg) (db s)
            then message_channel (db s)
            else message_channel (db s) @
                   [placeholder_row w msg cid (Some (content_fingerprint L w msg)) (db s)])"
  using assms(2-)
  by (simp add: save_duplicate [OF dup] create_message_channel_record_def truthy_id_def
      Let_def insert_message_channel_def placeholder_row_def initial_vars_def)

theorem duplicate_message_record_witness:
  "all_duplicate example_lib example_world (text_message 101 ''hello https://a.com/x'')
     after_direct \<and>
   tg_id (text_message 101 ''hello https://a.com/x'') \<noteq> 0 \<and> db_pool after_direct \<and>
   (1::nat) \<noteq> 0 \<and> (\<exists>c \<in> set (channels (db after_direct)). ch_channel_id c = 1) \<and>
   select_existing (tg_id (text_message 101 ''hello https://a.com/x'')) 1 (db after_direct)
     = None \<and>
   length (content_fingerprint example_lib example_world
             (text_message 101 ''hello https://a.com/x'')) \<le> 64 \<and>
   \<not> hash_taken (content_fingerprint example_lib example_world
                   (text_message 101 ''hello https://a.com/x'')) (db after_direct) \<and>
   message_channel (db after_direct_101) =
     [placeholder_row example_world (text_message 101 ''hello https://a.com/x'') 1
        (Some ''hello https://a.com/x'') (db after_direct)]"
proof -
  let ?m = "text_message 101 ''hello https://a.com/x''"
  have fp: "content_fingerprint example_lib example_world ?m = ''hello https://a.com/x''"
    by (simp add: content_fingerprint_def text_message_def example_lib_simps)
  have h1: "all_duplicate example_lib example_world ?m after_direct"
    by (simp add: all_duplicate_def after_direct_state text_message_def truthy_str_def
        example_world_def example_lib_simps)
  have h2: "tg_id ?m \<noteq> 0" by (simp add: text_message_def)
  have h3: "db_pool after_direct" and h4: "(1::nat) \<noteq> 0"
    and h5: "\<exists>c \<in> set (channels (db after_direct)). ch_channel_id c = 1"
    by (simp_all add: after_direct_state example_defs)
  have h6: "select_existing (tg_id ?m) 1 (db after_direct) = None"
    by (simp add: select_existing_def after_direct_state example_defs)
  have h7: "length (content_fingerprint example_lib example_world ?m) \<le> 64"
    by (simp add: fp)
  have h8: "\<not> hash_taken (content_fingerprint example_lib example_world ?m) (db after_direct)"
    by (simp add: hash_taken_def after_direct_state example_defs)
  from duplicate_message_record [OF h1 h2 h3 h4 h5 h6 h7,
      where channel_name = "Some ''@chan''"]
  have "message_channel (db after_direct_101) =
          [placeholder_row example_world ?m 1 (Some ''hello https://a.com/x'')
             (db after_direct)]"
    using h8 by (simp add: after_direct_101_def fp after_direct_mc)
  then show ?thesis using h1 h2 h3 h4 h5 h6 h7 h8 by blast
qed

text \<open>
  Claim C5, as the specification states it: processing a duplicate performs no
  persistence of the item, no byte-sink store included. After message 101 the text of
  message 102 is a duplicate, and processing message 102 writes that text to the
  download directory a second time.
\<close>

theorem duplicate_content_skipped_counterexample:
  "all_duplicate example_lib example_world (text_message 102 ''hello https://a.com/x'')
     after_101 \<and>
   map snd (files after_101) = [''hello https://a.com/x''] \<and>
   map snd (files after_102) = [''hello https://a.com/x'', ''hello https://a.com/x'']"
  by (simp add: all_duplicate_def after_101_dup after_101_files after_102_files
      text_message_def truthy_str_def example_world_def example_lib_simps)

text \<open>
  Claim C5, amended. Processing content whose fingerprint is already recorded inserts no
  row into a content table and records nothing in \<open>processed_content\<close>. Duplicate media
  are not written to the download directory; a duplicate text is written there, since
  the text block writes the file before it looks the fingerprint up. There is no count
  of duplicates: \<open>_save_telethon_message\<close> reports the message as processed, with no
  content type, and \<open>_process_single_file\<close> leaves the state as it is and returns \<open>False\<close>,
  which is also what it returns when the download fails.
\<close>

theorem duplicate_content_skipped:
  "(all_duplicate L w msg s \<longrightarrow>
      (case save_telethon_message L w msg channel_name (Some cid) s of
         (s', success, types_saved) \<Rightarrow>
           content_tables (db s') = content_tables (db s) \<and>
           processed_content s' = processed_content s \<and>
           files s' = files s @
             (if truthy_str (tg_text msg)
              then [(text_path (w_stamp_text w) s, the (tg_text msg))] else []) \<and>
           success \<and> types_saved = [])) \<and>
   (truthy_str (aw_download aw) \<and> is_duplicate (md5_hexdigest L (the (aw_download aw))) s \<longrightarrow>
      process_single_file L aw ct original_name s = (s, False)) \<and>
   (\<not> truthy_str (aw_download aw') \<longrightarrow>
      process_single_file L aw' ct original_name s = (s, False))"
proof (intro conjI impI)
  assume dup: "all_duplicate L w msg s"
  define s1 where "s1 = s\<lparr>files := files s @
                       (if truthy_str (tg_text msg)
                        then [(text_path (w_stamp_text w) s, the (tg_text msg))] else [])\<rparr>"
  define v3 where "v3 = initial_vars\<lparr>message_processed := True,
                      file_hash := Some (content_fingerprint L w msg)\<rparr>"
  define res where "res = create_message_channel_record w msg (Some cid) s1 v3"
  have eq: "save_telethon_message L w msg channel_name (Some cid) s =
          (fst res, message_processed (snd res) \<or> saved_any (snd res), types_saved_of (snd res))"
    by (simp add: save_duplicate [OF dup] s1_def v3_def res_def Let_def split: prod.splits)
  have v: "snd res = v3 \<or> snd res = v3\<lparr>saved_any := True\<rparr>"
    unfolding res_def by (rule create_record_vars)
  have mp: "message_processed (snd res)" and ts: "types_saved_of (snd res) = []"
    using v by (auto simp: v3_def)
  have fr: "content_tables (db (fst res)) = content_tables (db s)"
    "processed_content (fst res) = processed_content s"
    "files (fst res) = files s1"
    by (simp_all add: res_def create_record_frame s1_def)
  show "case save_telethon_message L w msg channel_name (Some cid) s of
         (s', success, types_saved) \<Rightarrow>
           content_tables (db s') = content_tables (db s) \<and>
           processed_content s' = processed_content s \<and>
           files s' = files s @
             (if truthy_str (tg_text msg)
              then [(text_path (w_stamp_text w) s, the (tg_text msg))] else []) \<and>
           success \<and> types_saved = []"
    by (simp add: eq fr mp ts) (simp add: s1_def)
next
  assume "truthy_str (aw_download aw) \<and> is_duplicate (md5_hexdigest L (the (aw_download aw))) s"
  then show "process_single_file L aw ct original_name s = (s, False)"
    by (simp add: process_single_file_def Let_def)
next
  assume "\<not> truthy_str (aw_download aw')"
  then show "process_single_file L aw' ct original_name s = (s, False)"
    by (simp add: process_single_file_def)
qed

theorem duplicate_content_skipped_witness:
  "all_duplicate example_lib example_world (photo_message 102 ''hello https://a.com/x'')
     after_photo \<and>
   truthy_str (aw_download example_aio_world) \<and>
   is_duplicate (md5_hexdigest example_lib (the (aw_download example_aio_world))) after_photo \<and>
   \<not> truthy_str (aw_download failing_aio_world) \<and>
   (case save_telethon_message example_lib example_world
           (photo_message 102 ''hello https://a.com/x'') (Some ''@chan'') (Some 1) after_photo of
      (s', success, types_saved) \<Rightarrow>
        content_tables (db s') = content_tables (db after_photo) \<and>
        processed_content s' = processed_content after_photo \<and>
        files s' = files after_photo @
          [(text_path (w_stamp_text example_world) after_photo, ''hello https://a.com/x'')] \<and>
        success \<and> types_saved = []) \<and>
   process_single_file example_lib example_aio_world Document None after_photo
     = (after_photo, False) \<and>
   process_single_file example_lib failing_aio_world Document None after_photo
     = (after_photo, False)"
proof -
  let ?m = "photo_message 102 ''hello https://a.com/x''"
  have h1: "all_duplicate example_lib example_world ?m after_photo"
    by (simp add: all_duplicate_def after_photo_dup photo_message_def truthy_str_def
        example_world_def example_lib_simps after_photo_client)
  have h2: "truthy_str (aw_download example_aio_world) \<and>
            is_duplicate (md5_hexdigest example_lib (the (aw_download example_aio_world)))
              after_photo"
    by (simp add: example_aio_world_def truthy_str_def example_lib_simps after_photo_dup)
  have h3: "\<not> truthy_str (aw_download failing_aio_world)"
    by (simp add: failing_aio_world_def truthy_str_def)
  have tx: "truthy_str (tg_text ?m)" "the (tg_text ?m) = ''hello https://a.com/x''"
    by (simp_all add: photo_message_def truthy_str_def)
  from duplicate_content_skipped [of example_lib example_world ?m after_photo
      "Some ''@chan''" 1 example_aio_world Document None failing_aio_world]
  show ?thesis using h1 h2 h3 by (simp add: tx)
qed

section \<open>Reconciliation into one unified record\<close>

text \<open>
  Claim C3, as the specification states it: processing the same message twice leaves
  exactly one unified record for its key. In the first scenario message 102 has no
  record after message 101 was processed, and it has none after it was processed twice:
  both inserts are refused, since the record of message 101 holds the fingerprint.
\<close>

theorem reconcile_twice_counterexample:
  "key_rows (tg_id (text_message 102 ''hello https://a.com/x'')) 1 (db after_101) = [] \<and>
   key_rows (tg_id (text_message 102 ''hello https://a.com/x'')) 1 (db after_102) = [] \<and>
   key_rows (tg_id (text_message 102 ''hello https://a.com/x'')) 1 (db after_102_again) = []"
  by (simp add: key_rows_def after_102_again_mc after_102_same after_101_mc text_message_def)

text \<open>
  Claim C3, amended. Processing the same message twice for the same channel, from a
  state without a record for the key \<open>(channel, message id)\<close>, leaves at most one unified
  record for the key. If a record exists after the first call, the second call leaves
  the whole table \<open>message_channel\<close> as it is (no insert, no change of the record) and
  exactly one record for the key remains. The first call creates the record, and so
  exactly one remains, when the store accepts the insert: with a pool, a channel id and
  a message id that are set, a row of the channel table with the channel id, links that
  fit their columns, and no unified record that already holds a fingerprint of the
  message. When the store refuses the insert, the key is left without a record.
\<close>

theorem reconcile_twice:
  assumes "key_rows (tg_id msg) cid (db s) = []"
  shows "let s1 = fst (save_telethon_message L w1 msg channel_name (Some cid) s);
             s2 = fst (save_telethon_message L w2 msg channel_name (Some cid) s1)
         in length (key_rows (tg_id msg) cid (db s2)) \<le> 1 \<and>
            (key_rows (tg_id msg) cid (db s1) \<noteq> [] \<longrightarrow>
               message_channel (db s2) = message_channel (db s1) \<and>
               length (key_rows (tg_id msg) cid (db s2)) = 1) \<and>
            (insert_accepted L w1 msg cid s \<longrightarrow>
               key_rows (tg_id msg) cid (db s1) \<noteq> [] \<and>
               message_channel (db s2) = message_channel (db s1) \<and>
               length (key_rows (tg_id msg) cid (db s2)) = 1)"
proof -
  define s1 where "s1 = fst (save_telethon_message L w1 msg channel_name (Some cid) s)"
  define s2 where "s2 = fst (save_telethon_message L w2 msg channel_name (Some cid) s1)"
  have goal: "length (key_rows (tg_id msg) cid (db s2)) \<le> 1 \<and>
            (key_rows (tg_id msg) cid (db s1) \<noteq> [] \<longrightarrow>
               message_channel (db s2) = message_channel (db s1) \<and>
               length (key_rows (tg_id msg) cid (db s2)) = 1)"
  proof (cases rule: save_record_cases [of L w1 msg channel_name cid s])
    case same
    then have "message_channel (db s1) = message_channel (db s)"
      by (simp add: s1_def)
    from key_rows_same [OF this] have k1: "key_rows (tg_id msg) cid (db s1) = []"
      using assms by simp
    have "length (key_rows (tg_id msg) cid (db s2)) \<le> 1"
    proof (cases rule: save_record_cases [of L w2 msg channel_name cid s1])
      case same
      then have "message_channel (db s2) = message_channel (db s1)"
        by (simp add: s2_def)
      from key_rows_same [OF this] show ?thesis using k1 by simp
    next
      case (new r)
      have "message_channel (db s2) = message_channel (db s1) @ [r]"
        using new(2) by (simp add: s2_def)
      from key_rows_append [OF this, of "tg_id msg" cid] show ?thesis
        using k1 by simp
    qed
    then show ?thesis using k1 by simp
  next
    case (new r)
    have r1: "message_channel (db s1) = message_channel (db s) @ [r]"
      using new(2) by (simp add: s1_def)
    have k1: "key_rows (tg_id msg) cid (db s1) = [r]"
      using key_rows_append [OF r1, of "tg_id msg" cid] assms new by simp
    have "select_existing (tg_id msg) cid (db s1) = Some (mc_message_id r)"
      using select_existing_new [OF assms r1 new(3) new(4)] .
    then have ex: "truthy_id (select_existing (tg_id msg) cid (db s1))"
      using new(5) by (simp add: truthy_id_def)
    have same2: "message_channel (db s2) = message_channel (db s1)"
    proof (cases rule: save_record_cases [of L w2 msg channel_name cid s1])
      case same
      then show ?thesis by (simp add: s2_def)
    next
      case (new r')
      with ex show ?thesis by simp
    qed
    from key_rows_same [OF this, of "tg_id msg" cid] show ?thesis
      using k1 same2 by simp
  qed
  have acc: "key_rows (tg_id msg) cid (db s1) \<noteq> []" if "insert_accepted L w1 msg cid s"
    unfolding s1_def by (rule save_inserts [OF that assms])
  have "length (key_rows (tg_id msg) cid (db s2)) \<le> 1 \<and>
            (key_rows (tg_id msg) cid (db s1) \<noteq> [] \<longrightarrow>
               message_channel (db s2) = message_channel (db s1) \<and>
               length (key_rows (tg_id msg) cid (db s2)) = 1) \<and>
            (insert_accepted L w1 msg cid s \<longrightarrow>
               key_rows (tg_id msg) cid (db s1) \<noteq> [] \<and>
               message_channel (db s2) = message_channel (db s1) \<and>
               length (key_rows (tg_id msg) cid (db s2)) = 1)"
    using goal acc by blast
  then show ?thesis
    unfolding Let_def s1_def [symmetric] s2_def [symmetric] .
qed

theorem reconcile_twice_witness:
  "key_rows (tg_id (text_message 101 ''hello https://a.com/x'')) 1 (db example_bot) = [] \<and>
   db_pool example_bot \<and>
   key_rows (tg_id (text_message 101 ''hello https://a.com/x'')) 1 (db after_101) \<noteq> [] \<and>
   message_channel (db after_101_again) = message_channel (db after_101) \<and>
   length (key_rows (tg_id (text_message 101 ''hello https://a.com/x'')) 1
             (db after_101_again)) = 1"
proof -
  let ?m = "text_message 101 ''hello https://a.com/x''"
  have h: "key_rows (tg_id ?m) 1 (db example_bot) = []"
    by (simp add: key_rows_def example_defs)
  have p: "db_pool example_bot" by (simp add: example_bot_def)
  note a = example_accepted
  from reconcile_twice [OF h, where L = example_lib and ?w1.0 = example_world
      and ?w2.0 = example_world and channel_name = "Some ''@chan''"]
  have "key_rows (tg_id ?m) 1 (db after_101) \<noteq> [] \<and>
        message_channel (db after_101_again) = message_channel (db after_101) \<and>
        length (key_rows (tg_id ?m) 1 (db after_101_again)) = 1"
    using a unfolding Let_def after_101_def [symmetric] after_101_again_def [symmetric]
    by blast
  then show ?thesis using h p by blast
qed

section \<open>Links\<close>

text \<open>
  Claim C2, as the specification states it: the first URL of a text is stored in the
  link store whether or not the text is a duplicate. In the second scenario the text of
  message 101 holds a URL and its fingerprint is already recorded; processing the
  message stores no link, and the unified record of the message has no link reference.
\<close>

theorem link_upsert_counterexample:
  "findall_from 0 ''hello https://a.com/x'' = [''https://a.com/x''] \<and>
   is_duplicate (md5_hexdigest example_lib ''hello https://a.com/x'') after_direct \<and>
   links (db after_direct) = [] \<and>
   links (db after_direct_101) = [] \<and>
   map mc_link_id (message_channel (db after_direct_101)) = [None]"
  using findall_example
  by (simp add: example_lib_simps after_direct_state after_direct_101_links example_db_def
      del: findall_from.simps)

text \<open>
  Claim C2, amended. For a text message whose text holds an http/https URL, the first
  match of the pattern being accepted by \<open>urlparse\<close>: when the fingerprint of the text is
  not recorded yet (and the text file is written, the store is available, the channel id
  is set, the URL has at most 500 and its domain at most 100 characters), the URL is
  upserted into the link store with its domain, an existing row of the same URL being
  kept; when the fingerprint of the text is already recorded, the link store is left as
  it is.
\<close>

theorem link_upsert:
  assumes "tg_text msg = Some t" "findall_from 0 t = u # us" "urlparse_netloc L u = Some d"
  shows "(is_duplicate (md5_hexdigest L t) s \<longrightarrow>
           links (db (fst (save_telethon_message L w msg channel_name (Some cid) s))) =
             links (db s)) \<and>
         (\<not> is_duplicate (md5_hexdigest L t) s' \<and> w_write_text w \<and> db_pool s' \<and> cid \<noteq> 0 \<and>
          length u \<le> 500 \<and> length d \<le> 100 \<longrightarrow>
           links (db (fst (save_telethon_message L w msg channel_name (Some cid) s'))) =
             (if \<exists>r \<in> set (links (db s')). lk_url r = u then links (db s')
              else links (db s') @
                     [\<lparr>lk_link_id = Suc (links_seq (db s')), lk_url = u, lk_domain = d\<rparr>]))"
proof -
  have t: "t \<noteq> []" using findall_nonempty [OF assms(2)] .
  have A: "links (db (fst (save_telethon_message L w msg channel_name (Some cid) s))) =
             links (db s)"
    if dup: "is_duplicate (md5_hexdigest L t) s"
    by (simp add: save_links save_text_dup [OF assms(1) t dup])
  have B: "links (db (fst (save_telethon_message L w msg channel_name (Some cid) s'))) =
             (if \<exists>r \<in> set (links (db s')). lk_url r = u then links (db s')
              else links (db s') @
                     [\<lparr>lk_link_id = Suc (links_seq (db s')), lk_url = u, lk_domain = d\<rparr>])"
    if nd: "\<not> is_duplicate (md5_hexdigest L t) s'" and wr: "w_write_text w"
      and pool: "db_pool s'" and c0: "cid \<noteq> 0"
      and lu: "length u \<le> 500" and ld: "length d \<le> 100"
  proof -
    have cid: "truthy_id (Some cid)" using c0 by (simp add: truthy_id_def)
    from insert_text_result [of t "db s'"] obtain d1 tid where
      ins: "insert_content Text t None (db s') = (d1, Some tid)" and
      l1: "links d1 = links (db s')" "links_seq d1 = links_seq (db s')" by blast
    from extract_links_first [OF assms(2,3)] obtain rest where
      ex: "extract_links L t = (u, d) # rest" by blast
    have "u \<in> set (findall_from 0 t)" using assms(2) by simp
    then have l3: "3 < length u" by (rule findall_from_length)
    from upsert_link_result [OF lu ld l3, of d1] obtain d2 lid where
      ups: "upsert_link u d d1 = (d2, Some lid)" and
      l2: "links d2 = (if \<exists>r \<in> set (links d1). lk_url r = u then links d1
                 else links d1 @
                   [\<lparr>lk_link_id = Suc (links_seq d1), lk_url = u, lk_domain = d\<rparr>])"
      by blast
    have "links (db (fst (save_text L w msg (Some cid) s' initial_vars))) = links d2"
      by (simp add: save_text_new [OF assms(1) t wr nd] Let_def pool cid ins ex ups
          record_processed_def)
    then show ?thesis by (simp add: save_links l2 l1)
  qed
  show ?thesis using A B by blast
qed

theorem link_upsert_witness:
  "tg_text (text_message 101 ''hello https://a.com/x'') = Some ''hello https://a.com/x'' \<and>
   findall_from 0 ''hello https://a.com/x'' = ''https://a.com/x'' # [] \<and>
   urlparse_netloc example_lib ''https://a.com/x'' = Some ''a.com'' \<and>
   is_duplicate (md5_hexdigest example_lib ''hello https://a.com/x'') after_direct \<and>
   \<not> is_duplicate (md5_hexdigest example_lib ''hello https://a.com/x'') example_bot \<and>
   w_write_text example_world \<and> db_pool example_bot \<and> (1::nat) \<noteq> 0 \<and>
   length ''https://a.com/x'' \<le> 500 \<and> length ''a.com'' \<le> 100 \<and>
   links (db after_direct_101) = links (db after_direct) \<and>
   links (db after_101) =
     [\<lparr>lk_link_id = 1, lk_url = ''https://a.com/x'', lk_domain = ''a.com''\<rparr>]"
proof -
  have h1: "tg_text (text_message 101 ''hello https://a.com/x'') = Some ''hello https://a.com/x''"
    by (simp add: text_message_def)
  have h2: "findall_from 0 ''hello https://a.com/x'' = ''https://a.com/x'' # []"
    by (rule findall_example)
  have h3: "urlparse_netloc example_lib ''https://a.com/x'' = Some ''a.com''"
    by (rule netloc_example)
  have h4: "is_duplicate (md5_hexdigest example_lib ''hello https://a.com/x'') after_direct"
    by (simp add: example_lib_simps after_direct_state)
  have h5: "\<not> is_duplicate (md5_hexdigest example_lib ''hello https://a.com/x'') example_bot"
    by (simp add: is_duplicate_def example_bot_def)
  have h6: "w_write_text example_world" "db_pool example_bot" "(1::nat) \<noteq> 0"
    "length ''https://a.com/x'' \<le> 500" "length ''a.com'' \<le> 100"
    by (simp_all add: example_world_def example_bot_def)
  from link_upsert [OF h1 h2 h3, where s = after_direct and s' = example_bot
      and w = example_world and channel_name = "Some ''@chan''" and cid = 1]
  have "links (db after_direct_101) = links (db after_direct) \<and>
        links (db after_101) =
          (if \<exists>r \<in> set (links (db example_bot)). lk_url r = ''https://a.com/x''
           then links (db example_bot)
           else links (db example_bot) @
                  [\<lparr>lk_link_id = Suc (links_seq (db example_bot)), lk_url = ''https://a.com/x'',
                    lk_domain = ''a.com''\<rparr>])"
    using h4 h5 h6 by (simp add: after_direct_101_def after_101_def)
  then have "links (db after_direct_101) = links (db after_direct) \<and>
        links (db after_101) =
          [\<lparr>lk_link_id = 1, lk_url = ''https://a.com/x'', lk_domain = ''a.com''\<rparr>]"
    by (simp add: example_bot_def example_db_def)
  then show ?thesis using h1 h2 h3 h4 h5 h6 by blast
qed

section \<open>The cursor of a channel\<close>

text \<open>
  Claim C4. After one pass of the monitor loop over a channel whose cursor is not
  negative, the cursor is the maximum of the cursor before the pass and of the ids of the
  messages that the pass processed successfully, whatever the order in which the
  transport yields the messages; in particular it is not below the cursor before.
\<close>

theorem cursor_is_maximum:
  assumes "monitored_channels s channel = Some meta" "0 \<le> last_id meta"
  shows "cursor (fst (monitor_channel L channel entity s)) channel =
           Some (Max (set (last_id meta # processed_ids L channel (cycle_batch channel entity s) s)))
         \<and> cursor s channel = Some (last_id meta)
         \<and> last_id meta \<le>
             Max (set (last_id meta # processed_ids L channel (cycle_batch channel entity s) s))"
proof -
  define ids where "ids = processed_ids L channel (cycle_batch channel entity s) s"
  define M where "M = Max (set (last_id meta # ids))"
  have M: "M = fold max ids (last_id meta)"
    unfolding M_def by (rule Max.set_eq_fold)
  from monitor_messages_cursor [OF assms, of L "cycle_batch channel entity s" 0 "\<lambda>_. 0"]
  obtain meta' where
    "monitored_channels (fst (monitor_channel L channel entity s)) channel = Some meta'"
    "last_id meta' = M"
    unfolding M ids_def by (auto simp: monitor_channel_batch)
  then have "cursor (fst (monitor_channel L channel entity s)) channel = Some M \<and>
      cursor s channel = Some (last_id meta) \<and> last_id meta \<le> M"
    using assms(1) fold_max_ge [of "last_id meta" ids]
    by (simp add: cursor_def M)
  then show ?thesis unfolding M_def ids_def .
qed

theorem cursor_is_maximum_witness:
  "monitored_channels example_bot ''@chan'' =
     Some \<lparr>is_active = True, last_id = 100, meta_channel_id = Some 1\<rparr> \<and>
   (0::int) \<le> last_id \<lparr>is_active = True, last_id = 100, meta_channel_id = Some 1\<rparr> \<and>
   processed_ids example_lib ''@chan''
     (cycle_batch ''@chan'' (Some out_of_order_batch) example_bot) example_bot = [101, 103, 102] \<and>
   cursor (fst (monitor_channel example_lib ''@chan'' (Some out_of_order_batch) example_bot))
     ''@chan'' = Some 103"
proof -
  have h1: "monitored_channels example_bot ''@chan'' =
     Some \<lparr>is_active = True, last_id = 100, meta_channel_id = Some 1\<rparr>"
    by (simp add: example_bot_def)
  have h2: "(0::int) \<le> last_id \<lparr>is_active = True, last_id = 100, meta_channel_id = Some 1\<rparr>"
    by simp
  from cursor_is_maximum [OF h1 h2, of example_lib "Some out_of_order_batch"]
  have "cursor (fst (monitor_channel example_lib ''@chan'' (Some out_of_order_batch) example_bot))
     ''@chan'' = Some 103"
    by (simp add: out_of_order_ids)
  then show ?thesis using h1 h2 out_of_order_ids by blast
qed

text \<open>
  Claim C8. When \<open>_add_channel\<close> succeeds, the cursor of the channel is the id of its
  newest message at that moment (the first that the transport yields, newest first), and
  every message that the later passes of the monitor loop iterate has an id above it, so
  that none of them is a message that the channel held at registration.
\<close>

theorem no_retroactive_ingestion:
  assumes "add_channel channel added_by (Some (title, history)) s = (s1, True)"
    and "sorted_wrt (>) (map tg_id history)"
  shows "cursor s1 channel = Some (latest_id history) \<and>
         (\<forall>i \<in> set (iterated_ids L channel entities s1).
            latest_id history < i \<and> i \<notin> tg_id ` set history)"
proof -
  from add_channel_cursor [OF assms(1)] obtain cid where
    m: "monitored_channels s1 channel =
           Some \<lparr>is_active = True, last_id = latest_id history, meta_channel_id = Some cid\<rparr>"
    by blast
  have c: "cursor s1 channel = Some (latest_id history)"
    using m by (simp add: cursor_def)
  have above: "\<forall>i \<in> set (iterated_ids L channel entities s1). latest_id history < i"
    using iterated_ids_above [OF m, of "latest_id history" L entities] by simp
  have "\<forall>i \<in> set (iterated_ids L channel entities s1). i \<notin> tg_id ` set history"
  proof
    fix i assume "i \<in> set (iterated_ids L channel entities s1)"
    with above have "latest_id history < i" by blast
    then show "i \<notin> tg_id ` set history"
      using newest_first_le [OF assms(2)] by fastforce
  qed
  with c above show ?thesis by blast
qed

theorem no_retroactive_ingestion_witness:
  "add_channel ''@chan'' 7
     (Some (''Chan'', [text_message 100 ''old'', text_message 99 ''older''])) fresh_bot
     = (registered, True) \<and>
   sorted_wrt (>) (map tg_id [text_message 100 ''old'', text_message 99 ''older'']) \<and>
   cursor registered ''@chan'' = Some 100 \<and>
   iterated_ids example_lib ''@chan'' [Some history_101] registered = [101] \<and>
   (100::int) < 101 \<and>
   (101::int) \<notin> tg_id ` set [text_message 100 ''old'', text_message 99 ''older'']"
proof -
  let ?h = "[text_message 100 ''old'', text_message 99 ''older'']"
  have h1: "add_channel ''@chan'' 7 (Some (''Chan'', ?h)) fresh_bot = (registered, True)"
    using registered_state(1) by (simp add: registered_def prod_eq_iff)
  have h2: "sorted_wrt (>) (map tg_id ?h)"
    by (simp add: text_message_def)
  have l: "latest_id ?h = 100" by (simp add: latest_id_def text_message_def)
  have ids: "iterated_ids example_lib ''@chan'' [Some history_101] registered = [101]"
    by (simp add: registered_batch text_message_def)
  from no_retroactive_ingestion [OF h1 h2, of example_lib "[Some history_101]"]
  have "cursor registered ''@chan'' = Some 100 \<and> (100::int) < 101 \<and>
        (101::int) \<notin> tg_id ` set ?h"
    unfolding l ids by simp
  then show ?thesis using h1 h2 ids by blast
qed

text \<open>
  Claim C10, as the specification states it: after a stop the cursor is retained, so that
  a later reactivation resumes from it. The channel is stopped at the cursor 100 and
  registered again when its newest message is 102: the cursor becomes 102, the next
  pass of the monitor loop iterates no message, and the messages 101 and 102, posted
  while the channel was stopped, are never ingested.
\<close>

theorem stop_then_reactivate_counterexample:
  "cursor stopped ''@chan'' = Some 100 \<and>
   cursor reactivated ''@chan'' = Some 102 \<and>
   cycle_batch ''@chan'' (Some history_102) reactivated = [] \<and>
   monitor_channel example_lib ''@chan'' (Some history_102) reactivated
     = (reactivated, 0, \<lambda>_. 0)"
  by (simp add: cursor_def stopped_state reactivated_state reactivated_batch
      monitor_channel_batch)

text \<open>
  Claim C10, amended. Stopping a channel marks it inactive in the store and in memory and
  leaves its cursor unchanged in both. A later reactivation (through \<open>_add_channel\<close>, the
  only operation that activates a channel) does not resume from the retained cursor: it
  sets the cursor, in the store and in memory, to the id of the newest message of the
  channel at that moment, so that the messages posted while the channel was stopped are
  not ingested.
\<close>

theorem stop_then_reactivate:
  "(stop_channel channel s = (s1, True) \<longrightarrow>
      map ch_last_message_id (channels (db s1)) = map ch_last_message_id (channels (db s)) \<and>
      (db_pool s \<longrightarrow>
         (\<forall>r \<in> set (channels (db s1)). ch_tag_channel r = channel \<longrightarrow> \<not> ch_is_active r)) \<and>
      cursor s1 channel = cursor s channel \<and>
      (\<forall>meta. monitored_channels s1 channel = Some meta \<longrightarrow> \<not> is_active meta)) \<and>
   (add_channel channel added_by (Some (title, history)) s1 = (s2, True) \<longrightarrow>
      cursor s2 channel = Some (latest_id history) \<and>
      (\<forall>r \<in> set (channels (db s2)). ch_tag_channel r = channel \<longrightarrow>
         ch_last_message_id r = latest_id history \<and> ch_is_active r))"
proof (intro conjI impI)
  assume a: "stop_channel channel s = (s1, True)"
  show "map ch_last_message_id (channels (db s1)) = map ch_last_message_id (channels (db s))"
    by (rule stop_channel_effect(1) [OF a])
  show "\<forall>r \<in> set (channels (db s1)). ch_tag_channel r = channel \<longrightarrow> \<not> ch_is_active r"
    if "db_pool s" by (rule stop_channel_effect(2) [OF a that])
  show "cursor s1 channel = cursor s channel"
    by (rule stop_channel_effect(3) [OF a])
  show "\<forall>meta. monitored_channels s1 channel = Some meta \<longrightarrow> \<not> is_active meta"
    by (rule stop_channel_effect(4) [OF a])
next
  assume b: "add_channel channel added_by (Some (title, history)) s1 = (s2, True)"
  from add_channel_cursor [OF b] show "cursor s2 channel = Some (latest_id history)"
    by (auto simp: cursor_def)
  show "\<forall>r \<in> set (channels (db s2)). ch_tag_channel r = channel \<longrightarrow>
         ch_last_message_id r = latest_id history \<and> ch_is_active r"
    by (rule add_channel_rows [OF b])
qed

theorem stop_then_reactivate_witness:
  "stop_channel ''@chan'' example_bot = (stopped, True) \<and> db_pool example_bot \<and>
   add_channel ''@chan'' 7
     (Some (''Chan'', [text_message 102 ''two'', text_message 101 ''one'',
                      text_message 100 ''old''])) stopped = (reactivated, True) \<and>
   cursor stopped ''@chan'' = cursor example_bot ''@chan'' \<and>
   map ch_last_message_id (channels (db stopped)) =
     map ch_last_message_id (channels (db example_bot)) \<and>
   cursor reactivated ''@chan'' = Some 102"
proof -
  let ?h = "[text_message 102 ''two'', text_message 101 ''one'', text_message 100 ''old'']"
  have h1: "stop_channel ''@chan'' example_bot = (stopped, True)"
    using stopped_state(1) by (simp add: stopped_def prod_eq_iff)
  have h2: "db_pool example_bot" by (simp add: example_bot_def)
  have h3: "add_channel ''@chan'' 7 (Some (''Chan'', ?h)) stopped = (reactivated, True)"
    using reactivated_state(1) by (simp add: reactivated_def prod_eq_iff)
  have l: "latest_id ?h = 102" by (simp add: latest_id_def text_message_def)
  from stop_then_reactivate [of "''@chan''" example_bot stopped 7 "''Chan''" ?h reactivated]
  show ?thesis using h1 h2 h3 unfolding l by blast
qed

section \<open>Claim C9: media groups\<close>




end
